theory Spec2Isabelle
  imports Main "HOL-Library.Multiset"
begin

section \<open>Enumerations\<close>

text \<open>The SDK's numeric constants (types.js): actions, streets and game status.\<close>

definition ACTION_NULL :: int where "ACTION_NULL = 0"
definition ACTION_BET :: int where "ACTION_BET = 1"
definition ACTION_CALL :: int where "ACTION_CALL = 2"
definition ACTION_FOLD :: int where "ACTION_FOLD = 3"
definition ACTION_RAISE :: int where "ACTION_RAISE = 4"
definition ACTION_CHECK :: int where "ACTION_CHECK = 5"
definition ACTION_ALL_IN :: int where "ACTION_ALL_IN = 6"

definition STREET_PREFLOP :: int where "STREET_PREFLOP = 0"
definition STREET_FLOP :: int where "STREET_FLOP = 1"
definition STREET_TURN :: int where "STREET_TURN = 2"
definition STREET_RIVER :: int where "STREET_RIVER = 3"
definition STREET_SHOWDOWN :: int where "STREET_SHOWDOWN = 4"

definition STATUS_WAITING :: int where "STATUS_WAITING = 0"
definition STATUS_ACTIVE :: int where "STATUS_ACTIVE = 1"
definition STATUS_FINISHED :: int where "STATUS_FINISHED = 2"

lemmas sdk_consts =
  ACTION_NULL_def ACTION_BET_def ACTION_CALL_def ACTION_FOLD_def ACTION_RAISE_def
  ACTION_CHECK_def ACTION_ALL_IN_def STREET_PREFLOP_def STREET_FLOP_def STREET_TURN_def
  STREET_RIVER_def STREET_SHOWDOWN_def STATUS_WAITING_def STATUS_ACTIVE_def
  STATUS_FINISHED_def

section \<open>Two-player game state of the SDK\<close>

text \<open>
  The SDK's game state (game-state.ts) is a tuple of eleven numbers. JavaScript numbers
  hold chip counts, which are integers; they are modelled as \<open>int\<close>.
\<close>

record GameState =
  stackP1 :: int
  stackP2 :: int
  pot :: int
  street :: int
  currentPlayer :: int
  lastAction :: int
  lastBetSize :: int
  streetBetP1 :: int
  streetBetP2 :: int
  status :: int
  dealer :: int

record Action =
  actionType :: int
  amount :: int

definition createGameState :: "int \<Rightarrow> int \<Rightarrow> int \<Rightarrow> GameState" where
  "createGameState sP1 sP2 d =
     \<lparr>stackP1 = sP1, stackP2 = sP2, pot = 0, street = STREET_PREFLOP,
      currentPlayer = (if d = 1 then 2 else 1), lastAction = ACTION_NULL, lastBetSize = 0,
      streetBetP1 = 0, streetBetP2 = 0, status = STATUS_ACTIVE, dealer = d\<rparr>"

text \<open>\<open>postBlinds\<close> of game-state.ts (the two-player SDK; the server's is further down).\<close>

definition sdk_postBlinds :: "GameState \<Rightarrow> int \<Rightarrow> int \<Rightarrow> GameState" where
  "sdk_postBlinds state smallBlind bigBlind =
     (let sbPlayer = (if dealer state = 1 then (1::int) else 2) in
      \<lparr>stackP1 = (if sbPlayer = 1 then stackP1 state - smallBlind else stackP1 state - bigBlind),
       stackP2 = (if sbPlayer = 1 then stackP2 state - bigBlind else stackP2 state - smallBlind),
       pot = smallBlind + bigBlind,
       street = STREET_PREFLOP,
       currentPlayer = sbPlayer,
       lastAction = ACTION_BET,
       lastBetSize = bigBlind,
       streetBetP1 = (if sbPlayer = 1 then smallBlind else bigBlind),
       streetBetP2 = (if sbPlayer = 1 then bigBlind else smallBlind),
       status = STATUS_ACTIVE,
       dealer = dealer state\<rparr>)"

text \<open>The chips an action moves from the actor's stack into the pot (\<open>chipsToAdd\<close>).\<close>

definition chipsToAdd :: "GameState \<Rightarrow> Action \<Rightarrow> int" where
  "chipsToAdd state action =
     (let currentStack = (if currentPlayer state = 1 then stackP1 state else stackP2 state);
          myStreetBet = (if currentPlayer state = 1 then streetBetP1 state else streetBetP2 state);
          oppStreetBet = (if currentPlayer state = 1 then streetBetP2 state else streetBetP1 state);
          toCall = (if oppStreetBet > myStreetBet then oppStreetBet - myStreetBet else 0)
      in if actionType action = ACTION_CALL then min toCall currentStack
         else if actionType action = ACTION_BET then amount action
         else if actionType action = ACTION_RAISE then amount action - myStreetBet
         else if actionType action = ACTION_ALL_IN then currentStack
         else 0)"

definition applyAction :: "GameState \<Rightarrow> Action \<Rightarrow> GameState" where
  "applyAction state action =
     (let chips = chipsToAdd state action;
          newStackP1 = (if currentPlayer state = 1 then stackP1 state - chips else stackP1 state);
          newStackP2 = (if currentPlayer state = 2 then stackP2 state - chips else stackP2 state);
          newStreetBetP1 =
            (if currentPlayer state = 1 then streetBetP1 state + chips else streetBetP1 state);
          newStreetBetP2 =
            (if currentPlayer state = 2 then streetBetP2 state + chips else streetBetP2 state);
          newPot = pot state + chips;
          newStatus = (if actionType action = ACTION_FOLD then STATUS_FINISHED else status state);
          betsEqual = (newStreetBetP1 = newStreetBetP2);
          bothActed = (lastAction state \<noteq> ACTION_NULL);
          streetComplete = (betsEqual \<and> bothActed \<and>
            (actionType action = ACTION_CALL \<or> actionType action = ACTION_CHECK))
      in if streetComplete \<and> street state < STREET_SHOWDOWN then
           \<lparr>stackP1 = newStackP1, stackP2 = newStackP2, pot = newPot,
            street = street state + 1,
            currentPlayer = (if dealer state = 1 then 2 else 1),
            lastAction = ACTION_NULL, lastBetSize = 0,
            streetBetP1 = 0, streetBetP2 = 0,
            status = newStatus, dealer = dealer state\<rparr>
         else
           \<lparr>stackP1 = newStackP1, stackP2 = newStackP2, pot = newPot,
            street = street state,
            currentPlayer = (if currentPlayer state = 1 then 2 else 1),
            lastAction = actionType action,
            lastBetSize =
              (if actionType action = ACTION_RAISE then amount action
               else if actionType action = ACTION_BET then chips
               else lastBetSize state),
            streetBetP1 = newStreetBetP1, streetBetP2 = newStreetBetP2,
            status = newStatus, dealer = dealer state\<rparr>)"






subsection \<open>Pot conservation of the SDK's \<open>applyAction\<close>\<close>


lemma applyAction_pot: "pot (applyAction state action) = pot state + chipsToAdd state action"
  by (simp add: applyAction_def Let_def)

lemma applyAction_stacks:
  assumes "currentPlayer state = 1 \<or> currentPlayer state = 2"
  shows "stackP1 (applyAction state action) + stackP2 (applyAction state action)
         = stackP1 state + stackP2 state - chipsToAdd state action"
  using assms by (auto simp add: applyAction_def Let_def)

text \<open>
  The states the SDK produces: \<open>createGameState\<close> with a dealer, then blinds and actions.
  In all of them the player to act is player 1 or player 2.
\<close>

inductive reachable :: "GameState \<Rightarrow> bool" where
  init: "reachable (createGameState sP1 sP2 d)"
| blinds: "reachable state \<Longrightarrow> reachable (sdk_postBlinds state sb bb)"
| step: "reachable state \<Longrightarrow> reachable (applyAction state action)"

lemma reachable_currentPlayer:
  "reachable state \<Longrightarrow> currentPlayer state = 1 \<or> currentPlayer state = 2"
proof (induction rule: reachable.induct)
  case (init sP1 sP2 d)
  show ?case by (simp add: createGameState_def)
next
  case (blinds state sb bb)
  show ?case by (simp add: sdk_postBlinds_def Let_def)
next
  case (step state action)
  show ?case by (simp add: applyAction_def Let_def)
qed



lemma reachable_conservation:
  "reachable state \<Longrightarrow>
   stackP1 (applyAction state action) + stackP2 (applyAction state action)
     + pot (applyAction state action)
   = stackP1 state + stackP2 state + pot state"
  using applyAction_stacks [OF reachable_currentPlayer, of state action]
    applyAction_pot [of state action]
  by simp


section \<open>The server's betting engine\<close>

subsection \<open>Types of the server (types/game.ts, types/messages.ts)\<close>

datatype ActionType = FOLD | CHECK | CALL | BET | RAISE | ALL_IN

text \<open>The numeric values TypeScript gives the members of \<open>enum ActionType\<close>.\<close>

fun ActionType_value :: "ActionType \<Rightarrow> int" where
  "ActionType_value FOLD = 0"
| "ActionType_value CHECK = 1"
| "ActionType_value CALL = 2"
| "ActionType_value BET = 3"
| "ActionType_value RAISE = 4"
| "ActionType_value ALL_IN = 5"

text \<open>\<open>enum Street\<close>; the engine increments a street, so the state holds the number.\<close>

definition Street_PREFLOP :: int where "Street_PREFLOP = 0"
definition Street_FLOP :: int where "Street_FLOP = 1"
definition Street_TURN :: int where "Street_TURN = 2"
definition Street_RIVER :: int where "Street_RIVER = 3"
definition Street_SHOWDOWN :: int where "Street_SHOWDOWN = 4"

datatype GameStatus =
  WAITING | SHUFFLE | DEALING | BETTING | SHOWDOWN | FINISHED

text \<open>\<open>enum GameStatus\<close> is string-valued.\<close>

fun GameStatus_value :: "GameStatus \<Rightarrow> string" where
  "GameStatus_value WAITING = ''waiting''"
| "GameStatus_value SHUFFLE = ''shuffle''"
| "GameStatus_value DEALING = ''dealing''"
| "GameStatus_value BETTING = ''betting''"
| "GameStatus_value SHOWDOWN = ''showdown''"
| "GameStatus_value FINISHED = ''finished''"

text \<open>
  \<open>PlayerState\<close>. The field \<open>id\<close> is called \<open>playerId\<close> here (\<open>id\<close> is HOL's identity
  function); \<open>isConnected\<close> and \<open>publicKey\<close> are not read by the engine and are left out.
\<close>

record PlayerState =
  playerId :: string
  seatIndex :: int
  stack :: int
  streetBet :: int
  totalBet :: int
  folded :: bool
  allIn :: bool

record SidePot =
  amount :: int
  eligiblePlayers :: "string list"

record GameConfig =
  minPlayers :: int
  maxPlayers :: int
  smallBlind :: int
  bigBlind :: int
  startingStack :: int
  turnTimeoutMs :: int

definition DEFAULT_GAME_CONFIG :: GameConfig where
  "DEFAULT_GAME_CONFIG =
     \<lparr>minPlayers = 2, maxPlayers = 10, smallBlind = 1, bigBlind = 2,
      startingStack = 100, turnTimeoutMs = 60000\<rparr>"

text \<open>
  \<open>GameStateN\<close>, without the cards (\<open>communityCards\<close>, \<open>deck\<close>, \<open>currentShuffler\<close>), which
  the betting engine only clears.
\<close>

record GameStateN =
  players :: "PlayerState list"
  pot :: int
  sidePots :: "SidePot list"
  street :: int
  buttonPos :: int
  actionPos :: int
  lastAggressor :: "int option"
  lastRaiseAmount :: int
  minRaise :: int
  status :: GameStatus

definition createPlayerState :: "string \<Rightarrow> int \<Rightarrow> int \<Rightarrow> PlayerState" where
  "createPlayerState i seat st =
     \<lparr>playerId = i, seatIndex = seat, stack = st, streetBet = 0, totalBet = 0,
      folded = False, allIn = False\<rparr>"

definition createInitialGameState ::
  "PlayerState list \<Rightarrow> GameConfig \<Rightarrow> int \<Rightarrow> GameStateN" where
  "createInitialGameState ps config button =
     \<lparr>players = ps, pot = 0, sidePots = [], street = Street_PREFLOP, buttonPos = button,
      actionPos = -1, lastAggressor = None, lastRaiseAmount = bigBlind config,
      minRaise = bigBlind config, status = SHUFFLE\<rparr>"

subsection \<open>Seats and positions\<close>

text \<open>
  Players are objects that the engine mutates through references. A reference is
  modelled by the position of the player in \<open>players\<close>; \<open>findIndex\<close> gives the position of
  the first player that \<open>Array.prototype.find\<close> would return.
\<close>

fun findIndex :: "('a \<Rightarrow> bool) \<Rightarrow> 'a list \<Rightarrow> nat option" where
  "findIndex P [] = None"
| "findIndex P (x # xs) =
     (if P x then Some 0 else (case findIndex P xs of None \<Rightarrow> None | Some i \<Rightarrow> Some (Suc i)))"

definition getPlayerByIndex :: "GameStateN \<Rightarrow> int \<Rightarrow> nat option" where
  "getPlayerByIndex s seat = findIndex (\<lambda>p. seatIndex p = seat) (players s)"

definition getPlayerById :: "GameStateN \<Rightarrow> string \<Rightarrow> nat option" where
  "getPlayerById s i = findIndex (\<lambda>p. playerId p = i) (players s)"

text \<open>JavaScript's \<open>%\<close> on integers: the result has the sign of the dividend.\<close>

definition js_rem :: "int \<Rightarrow> int \<Rightarrow> int" where
  "js_rem a b = sgn a * (\<bar>a\<bar> mod \<bar>b\<bar>)"

text \<open>
  The loop of \<open>getNextActivePlayer\<close>; the last argument counts the iterations that
  remain (\<open>numPlayers - iterations\<close>).
\<close>

fun nextActiveLoop :: "GameStateN \<Rightarrow> int \<Rightarrow> int \<Rightarrow> nat \<Rightarrow> int" where
  "nextActiveLoop s numPlayers seat 0 = -1"
| "nextActiveLoop s numPlayers seat (Suc k) =
     (case getPlayerByIndex s seat of
        Some i \<Rightarrow>
          (if \<not> folded (players s ! i) \<and> \<not> allIn (players s ! i) then seat
           else nextActiveLoop s numPlayers (js_rem (seat + 1) numPlayers) k)
      | None \<Rightarrow> nextActiveLoop s numPlayers (js_rem (seat + 1) numPlayers) k)"

text \<open>
  With no players \<open>(fromSeat + 1) % 0\<close> is \<open>NaN\<close>, the loop does not run and the result
  is \<open>-1\<close>.
\<close>

definition getNextActivePlayer :: "GameStateN \<Rightarrow> int \<Rightarrow> int" where
  "getNextActivePlayer s fromSeat =
     (let numPlayers = int (length (players s)) in
      if numPlayers = 0 then -1
      else nextActiveLoop s numPlayers (js_rem (fromSeat + 1) numPlayers) (length (players s)))"

definition getSmallBlindPosition :: "GameStateN \<Rightarrow> int" where
  "getSmallBlindPosition s =
     (if length (players s) = 2 then buttonPos s else getNextActivePlayer s (buttonPos s))"

definition getBigBlindPosition :: "GameStateN \<Rightarrow> int" where
  "getBigBlindPosition s = getNextActivePlayer s (getSmallBlindPosition s)"

definition getUTGPosition :: "GameStateN \<Rightarrow> int" where
  "getUTGPosition s = getNextActivePlayer s (getBigBlindPosition s)"

subsection \<open>Posting the blinds\<close>

text \<open>
  The body that \<open>postBlinds\<close> runs for the small-blind player and again for the big-blind
  player: take \<open>min blind stack\<close> from the stack, set the street bet to it, add it to the
  total bet and to the pot, and mark the player all-in when the stack is empty.
\<close>

definition postBlind :: "int \<Rightarrow> nat \<Rightarrow> GameStateN \<Rightarrow> GameStateN" where
  "postBlind blind i s =
     (let p = players s ! i;
          a = min blind (stack p);
          p1 = p\<lparr>stack := stack p - a, streetBet := a, totalBet := totalBet p + a\<rparr>;
          p2 = (if stack p1 = 0 then p1\<lparr>allIn := True\<rparr> else p1)
      in s\<lparr>players := (players s)[i := p2], pot := pot s + a\<rparr>)"

text \<open>
  \<open>GameEngine.postBlinds\<close>. Both positions and both players are looked up before
  anything is changed; the first player to act is looked up afterwards.
\<close>

definition postBlinds :: "GameConfig \<Rightarrow> GameStateN \<Rightarrow> GameStateN" where
  "postBlinds config s =
     (let sbPos = getSmallBlindPosition s;
          bbPos = getBigBlindPosition s;
          sbPlayer = getPlayerByIndex s sbPos;
          bbPlayer = getPlayerByIndex s bbPos;
          s1 = (case sbPlayer of None \<Rightarrow> s | Some i \<Rightarrow> postBlind (smallBlind config) i s);
          s2 = (case bbPlayer of None \<Rightarrow> s1 | Some j \<Rightarrow> postBlind (bigBlind config) j s1);
          s3 = s2\<lparr>lastRaiseAmount := bigBlind config, minRaise := bigBlind config\<rparr>;
          s4 = s3\<lparr>actionPos := getUTGPosition s3\<rparr>
      in s4\<lparr>status := BETTING\<rparr>)"


subsection \<open>Legal actions and their application\<close>

text \<open>
  \<open>Math.max(...players.map(p => p.streetBet))\<close>. Of no numbers JavaScript's maximum is
  \<open>-Infinity\<close>; the engine takes the maximum after it has found a player in the list, or
  (in \<open>areAllBetsEqual\<close>) compares it with the bets of the same empty list, so the value
  for the empty list is never looked at, and the model puts \<open>0\<close> there.
\<close>

definition Math_max :: "int list \<Rightarrow> int" where
  "Math_max xs = (case xs of [] \<Rightarrow> 0 | x # r \<Rightarrow> fold max r x)"

definition maxStreetBet :: "GameStateN \<Rightarrow> int" where
  "maxStreetBet s = Math_max (map streetBet (players s))"

definition getAmountToCall :: "GameStateN \<Rightarrow> PlayerState \<Rightarrow> int" where
  "getAmountToCall s player = min (maxStreetBet s - streetBet player) (stack player)"

definition getValidActions :: "GameConfig \<Rightarrow> GameStateN \<Rightarrow> ActionType list" where
  "getValidActions config s =
     (case getPlayerByIndex s (actionPos s) of
        None \<Rightarrow> []
      | Some i \<Rightarrow>
          (let player = players s ! i in
           if folded player \<or> allIn player then []
           else
             (let amountToCall = getAmountToCall s player;
                  m = maxStreetBet s
              in [FOLD]
                 @ (if amountToCall = 0 then [CHECK] else [CALL])
                 @ (if (m = 0 \<or> (street s = Street_PREFLOP \<and> m = bigBlind config))
                       \<and> stack player > amountToCall then [BET] else [])
                 @ (if m > 0 \<and> stack player > amountToCall then [RAISE] else [])
                 @ (if stack player > 0 then [ALL_IN] else []))))"

definition areAllBetsEqual :: "GameStateN \<Rightarrow> bool" where
  "areAllBetsEqual s =
     (let activePlayers = filter (\<lambda>p. \<not> folded p) (players s);
          maxBet = Math_max (map streetBet activePlayers)
      in list_all (\<lambda>p. streetBet p = maxBet \<or> allIn p) activePlayers)"

definition playersWhoCanAct :: "GameStateN \<Rightarrow> PlayerState list" where
  "playersWhoCanAct s = filter (\<lambda>p. \<not> folded p \<and> \<not> allIn p) (players s)"

text \<open>
  \<open>advanceStreet\<close> calls itself while at most one player can act, and stops at the river.
  Entered on a street after the river it never reaches the river again; the model returns
  \<open>None\<close> for a call that does not return.
\<close>

partial_function (option) advanceStreet :: "GameConfig \<Rightarrow> GameStateN \<Rightarrow> GameStateN option"
where
  "advanceStreet config s =
     (if street s = Street_RIVER then
        Some (s\<lparr>street := Street_SHOWDOWN, status := SHOWDOWN\<rparr>)
      else
        (let s1 = s\<lparr>players := map (\<lambda>p. p\<lparr>streetBet := 0\<rparr>) (players s),
                     lastAggressor := None,
                     minRaise := bigBlind config,
                     lastRaiseAmount := 0,
                     street := street s + 1\<rparr>;
             s2 = s1\<lparr>actionPos := getNextActivePlayer s1 (buttonPos s1)\<rparr>
         in if length (playersWhoCanAct s2) \<le> 1 then advanceStreet config s2 else Some s2))"

declare advanceStreet.simps [code]

definition advanceAction :: "GameConfig \<Rightarrow> GameStateN \<Rightarrow> GameStateN option" where
  "advanceAction config s =
     (if length (filter (\<lambda>p. \<not> folded p) (players s)) = 1 then Some (s\<lparr>status := FINISHED\<rparr>)
      else if length (playersWhoCanAct s) \<le> 1
              \<and> (areAllBetsEqual s \<or> length (playersWhoCanAct s) = 0)
        then advanceStreet config s
      else
        (let nextSeat = getNextActivePlayer s (actionPos s) in
         if nextSeat = -1 then advanceStreet config s
         else if lastAggressor s \<noteq> None \<and> lastAggressor s = Some nextSeat
                 \<and> areAllBetsEqual s
           then advanceStreet config s
         else if lastAggressor s = None \<and> areAllBetsEqual s
                 \<and> (if street s = Street_PREFLOP then nextSeat = getUTGPosition s
                      else nextSeat = getNextActivePlayer s (buttonPos s))
           then advanceStreet config s
         else Some (s\<lparr>actionPos := nextSeat\<rparr>)))"

text \<open>What \<open>applyAction\<close> returns: success, or one of its error messages.\<close>

datatype ActionError =
  PlayerNotFound | NotYourTurn | InvalidAction | CannotCheck
  | MinimumBet int | MinimumRaise int | InsufficientChips

datatype ActionResult = Success | Failure ActionError

definition updPlayer :: "nat \<Rightarrow> (PlayerState \<Rightarrow> PlayerState) \<Rightarrow> GameStateN \<Rightarrow> GameStateN" where
  "updPlayer i f s = s\<lparr>players := (players s)[i := f (players s ! i)]\<rparr>"

definition markAllIn :: "PlayerState \<Rightarrow> PlayerState" where
  "markAllIn p = (if stack p = 0 then p\<lparr>allIn := True\<rparr> else p)"

text \<open>
  The handlers return the result together with the state they leave behind; \<open>None\<close> when
  the closing \<open>advanceAction\<close> does not return.
\<close>

definition finish :: "GameConfig \<Rightarrow> GameStateN \<Rightarrow> (ActionResult \<times> GameStateN) option" where
  "finish config s = (case advanceAction config s of None \<Rightarrow> None | Some s' \<Rightarrow> Some (Success, s'))"

definition handleFold :: "GameConfig \<Rightarrow> GameStateN \<Rightarrow> nat \<Rightarrow> (ActionResult \<times> GameStateN) option"
where
  "handleFold config s i = finish config (updPlayer i (\<lambda>p. p\<lparr>folded := True\<rparr>) s)"

definition handleCheck :: "GameConfig \<Rightarrow> GameStateN \<Rightarrow> nat \<Rightarrow> (ActionResult \<times> GameStateN) option"
where
  "handleCheck config s i =
     (if getAmountToCall s (players s ! i) > 0 then Some (Failure CannotCheck, s)
      else finish config s)"

definition handleCall :: "GameConfig \<Rightarrow> GameStateN \<Rightarrow> nat \<Rightarrow> (ActionResult \<times> GameStateN) option"
where
  "handleCall config s i =
     (let a = getAmountToCall s (players s ! i);
          s1 = updPlayer i (\<lambda>p. markAllIn (p\<lparr>stack := stack p - a, streetBet := streetBet p + a,
                                              totalBet := totalBet p + a\<rparr>)) s
      in finish config (s1\<lparr>pot := pot s1 + a\<rparr>))"

definition handleBet ::
  "GameConfig \<Rightarrow> GameStateN \<Rightarrow> nat \<Rightarrow> int \<Rightarrow> (ActionResult \<times> GameStateN) option" where
  "handleBet config s i a =
     (let player = players s ! i in
      if a < bigBlind config then Some (Failure (MinimumBet (bigBlind config)), s)
      else if a > stack player then Some (Failure InsufficientChips, s)
      else
        (let s1 = updPlayer i (\<lambda>p. markAllIn (p\<lparr>stack := stack p - a,
                                  streetBet := streetBet p + a, totalBet := totalBet p + a\<rparr>)) s
         in finish config (s1\<lparr>pot := pot s1 + a, lastAggressor := Some (seatIndex player),
                                lastRaiseAmount := a, minRaise := a\<rparr>)))"

definition handleRaise ::
  "GameConfig \<Rightarrow> GameStateN \<Rightarrow> nat \<Rightarrow> int \<Rightarrow> (ActionResult \<times> GameStateN) option" where
  "handleRaise config s i totalAmount =
     (let player = players s ! i;
          currentMaxBet = maxStreetBet s;
          raiseAmount = totalAmount - currentMaxBet;
          additionalBet = totalAmount - streetBet player
      in if raiseAmount < minRaise s \<and> additionalBet < stack player
           then Some (Failure (MinimumRaise (minRaise s)), s)
         else if additionalBet > stack player then Some (Failure InsufficientChips, s)
         else
           (let s1 = updPlayer i (\<lambda>p. markAllIn (p\<lparr>stack := stack p - additionalBet,
                       streetBet := totalAmount, totalBet := totalBet p + additionalBet\<rparr>)) s
            in finish config (s1\<lparr>pot := pot s1 + additionalBet,
                                   lastAggressor := Some (seatIndex player),
                                   lastRaiseAmount := raiseAmount, minRaise := raiseAmount\<rparr>)))"

definition handleAllIn ::
  "GameConfig \<Rightarrow> GameStateN \<Rightarrow> nat \<Rightarrow> (ActionResult \<times> GameStateN) option" where
  "handleAllIn config s i =
     (let player = players s ! i;
          a = stack player;
          currentMaxBet = maxStreetBet s;
          newBet = streetBet player + a;
          s0 = (if newBet > currentMaxBet \<and> newBet - currentMaxBet \<ge> minRaise s
                then s\<lparr>lastAggressor := Some (seatIndex player),
                       lastRaiseAmount := newBet - currentMaxBet,
                       minRaise := newBet - currentMaxBet\<rparr>
                else s);
          s1 = updPlayer i (\<lambda>p. p\<lparr>stack := 0, streetBet := streetBet p + a,
                                    totalBet := totalBet p + a, allIn := True\<rparr>) s0
      in finish config (s1\<lparr>pot := pot s1 + a\<rparr>))"

text \<open>
  \<open>GameEngine.applyAction\<close> for the action \<open>{playerId, type, amount}\<close>.
\<close>

definition GameEngine_applyAction ::
  "GameConfig \<Rightarrow> GameStateN \<Rightarrow> string \<Rightarrow> ActionType \<Rightarrow> int
     \<Rightarrow> (ActionResult \<times> GameStateN) option" where
  "GameEngine_applyAction config s pid ty a =
     (case getPlayerById s pid of
        None \<Rightarrow> Some (Failure PlayerNotFound, s)
      | Some i \<Rightarrow>
          if seatIndex (players s ! i) \<noteq> actionPos s then Some (Failure NotYourTurn, s)
          else if ty \<notin> set (getValidActions config s) then Some (Failure InvalidAction, s)
          else (case ty of
                  FOLD \<Rightarrow> handleFold config s i
                | CHECK \<Rightarrow> handleCheck config s i
                | CALL \<Rightarrow> handleCall config s i
                | BET \<Rightarrow> handleBet config s i a
                | RAISE \<Rightarrow> handleRaise config s i a
                | ALL_IN \<Rightarrow> handleAllIn config s i))"

subsection \<open>Side pots\<close>

text \<open>
  The loop of \<open>calculateSidePots\<close> over the contributors from index \<open>i\<close> on: \<open>rest\<close> is
  \<open>allContributors.slice(i)\<close>, so that \<open>allContributors.length - i\<close> is its length.
  (\<open>contributorsAtThisLevel\<close> is computed by the source and never used.)
\<close>

fun sidePotLoop :: "PlayerState list \<Rightarrow> int \<Rightarrow> PlayerState list \<Rightarrow> SidePot list" where
  "sidePotLoop activePlayers previousBet [] = []"
| "sidePotLoop activePlayers previousBet (player # rest) =
     (let contributionLevel = totalBet player;
          sliceAmount = contributionLevel - previousBet;
          numContributors = int (length (player # rest));
          potAmount = sliceAmount * numContributors;
          eligible = map playerId (filter (\<lambda>p. totalBet p \<ge> contributionLevel) activePlayers)
      in (if sliceAmount > 0 \<and> length eligible > 0 \<and> potAmount > 0
          then [\<lparr>amount = potAmount, eligiblePlayers = eligible\<rparr>] else [])
         @ sidePotLoop activePlayers contributionLevel rest)"

text \<open>\<open>Array.prototype.sort\<close> is stable, as is \<open>sort_key\<close>.\<close>

definition calculateSidePots :: "GameStateN \<Rightarrow> SidePot list" where
  "calculateSidePots s =
     (let allContributors = sort_key totalBet (filter (\<lambda>p. totalBet p > 0) (players s));
          activePlayers = filter (\<lambda>p. \<not> folded p) (players s)
      in sidePotLoop activePlayers 0 allContributors)"


subsection \<open>Example states\<close>

text \<open>
  Three players at showdown: \<open>a\<close> and \<open>c\<close> are all-in for 10 and 15, \<open>b\<close> has put in 20
  and is folded (a player who does not reveal in time is marked folded before the pots
  are computed).
\<close>

definition foldedLeader :: GameStateN where
  "foldedLeader =
     (createInitialGameState
        [(createPlayerState ''a'' 0 0)\<lparr>totalBet := 10, allIn := True\<rparr>,
         (createPlayerState ''b'' 1 80)\<lparr>totalBet := 20, folded := True\<rparr>,
         (createPlayerState ''c'' 2 0)\<lparr>totalBet := 15, allIn := True\<rparr>]
        DEFAULT_GAME_CONFIG 0)
     \<lparr>pot := 45, street := Street_SHOWDOWN, status := SHOWDOWN\<rparr>"

text \<open>Three players at showdown, one all-in for 20, two in for 50 each, nobody folded.\<close>

definition allInCalled :: GameStateN where
  "allInCalled =
     (createInitialGameState
        [(createPlayerState ''p1'' 0 0)\<lparr>totalBet := 20, allIn := True\<rparr>,
         (createPlayerState ''p2'' 1 0)\<lparr>totalBet := 50, allIn := True\<rparr>,
         (createPlayerState ''p3'' 2 0)\<lparr>totalBet := 50, allIn := True\<rparr>]
        DEFAULT_GAME_CONFIG 0)
     \<lparr>pot := 120, street := Street_SHOWDOWN, status := SHOWDOWN\<rparr>"

text \<open>
  A new game of two players sitting at seats 0 and 2 (the player of seat 1 left before the
  start), with the default configuration.
\<close>

definition sparseSeats :: GameStateN where
  "sparseSeats =
     createInitialGameState
       [createPlayerState ''p1'' 0 100, createPlayerState ''p3'' 2 100] DEFAULT_GAME_CONFIG 0"

text \<open>A new heads-up game with stacks of 1 and 3 chips and blinds of 1 and 2.\<close>

definition shortStacks :: GameStateN where
  "shortStacks =
     createInitialGameState
       [createPlayerState ''p1'' 0 1, createPlayerState ''p2'' 1 3] DEFAULT_GAME_CONFIG 0"

lemmas example_defs =
  createInitialGameState_def createPlayerState_def DEFAULT_GAME_CONFIG_def
  Street_PREFLOP_def Street_SHOWDOWN_def

lemmas position_defs =
  getPlayerByIndex_def getSmallBlindPosition_def getBigBlindPosition_def getUTGPosition_def
  getNextActivePlayer_def js_rem_def

subsection \<open>Side-pot solvency\<close>

text \<open>
  The side pots in the words of the specification: the distinct positive total bets in
  ascending order are the contribution levels, and each level \<open>hi\<close>, with the level \<open>lo\<close>
  before it (0 before the first), forms a pot of \<open>hi - lo\<close> chips from every player whose
  total bet is at least \<open>hi\<close>; its eligible winners are the players who have not folded
  and whose total bet is at least \<open>hi\<close>.
\<close>

definition contributionLevels :: "GameStateN \<Rightarrow> int list" where
  "contributionLevels s = remdups_adj (sort (filter (\<lambda>b. 0 < b) (map totalBet (players s))))"

fun slicePots :: "PlayerState list \<Rightarrow> PlayerState list \<Rightarrow> int \<Rightarrow> int list \<Rightarrow> SidePot list" where
  "slicePots ps act lo [] = []"
| "slicePots ps act lo (hi # ls) =
     \<lparr>amount = (hi - lo) * int (length (filter (\<lambda>p. hi \<le> totalBet p) ps)),
      eligiblePlayers = map playerId (filter (\<lambda>p. hi \<le> totalBet p) act)\<rparr>
     # slicePots ps act hi ls"

definition spec_sidePots :: "GameStateN \<Rightarrow> SidePot list" where
  "spec_sidePots s =
     slicePots (players s) (filter (\<lambda>p. \<not> folded p) (players s)) 0 (contributionLevels s)"

lemma sum_list_map_diff_const:
  "sum_list (map (\<lambda>p. f p - (c::int)) xs) = sum_list (map f xs) - c * int (length xs)"
  by (induction xs) (auto simp: algebra_simps)

lemma sidePotLoop_sum:
  assumes "\<forall>p\<in>set rest. prev \<le> totalBet p" "sorted (map totalBet rest)"
    "\<forall>p\<in>set rest. \<exists>q\<in>set act. totalBet q \<ge> totalBet p"
  shows "sum_list (map amount (sidePotLoop act prev rest)) = (\<Sum>p\<leftarrow>rest. totalBet p - prev)"
  using assms
proof (induction rest arbitrary: prev)
  case Nil
  then show ?case by simp
next
  case (Cons p rest)
  let ?L = "totalBet p"
  have IH: "sum_list (map amount (sidePotLoop act ?L rest)) = (\<Sum>q\<leftarrow>rest. totalBet q - ?L)"
    using Cons.prems by (intro Cons.IH) auto
  have el: "filter (\<lambda>q. totalBet q \<ge> ?L) act \<noteq> []"
    using Cons.prems(3) by (auto simp: filter_empty_conv)
  have ge: "prev \<le> ?L" using Cons.prems(1) by simp
  have split: "(\<Sum>q\<leftarrow>rest. totalBet q - prev)
      = (\<Sum>q\<leftarrow>rest. totalBet q - ?L) + (?L - prev) * int (length rest)"
    by (simp add: sum_list_map_diff_const algebra_simps)
  show ?case
  proof (cases "?L - prev > 0")
    case True
    then have "(?L - prev) * int (length (p # rest)) > 0" by simp
    with True el show ?thesis
      using IH split by (simp add: Let_def algebra_simps)
  next
    case False
    with ge have "?L = prev" by simp
    then show ?thesis using IH by (simp add: Let_def)
  qed
qed

lemma sum_list_filter_pos:
  "\<forall>p\<in>set ps. 0 \<le> f p \<Longrightarrow> sum_list (map f (filter (\<lambda>p. f p > (0::int)) ps)) = sum_list (map f ps)"
  by (induction ps) (auto simp: order.order_iff_strict)

lemma sum_list_insort_key:
  "sum_list (map f (insort_key g x xs)) = (f x :: int) + sum_list (map f xs)"
  by (induction xs) auto

lemma sum_list_sort_key: "sum_list (map f (sort_key g xs)) = sum_list (map (f::'a \<Rightarrow> int) xs)"
  by (induction xs) (auto simp: sum_list_insort_key)


lemma calculateSidePots_sum:
  assumes nonneg: "\<forall>p\<in>set (players s). 0 \<le> totalBet p"
    and covered: "\<forall>p\<in>set (players s). \<exists>q\<in>set (players s). \<not> folded q \<and> totalBet p \<le> totalBet q"
  shows "sum_list (map amount (calculateSidePots s)) = sum_list (map totalBet (players s))"
proof -
  let ?act = "filter (\<lambda>p. \<not> folded p) (players s)"
  let ?con = "sort_key totalBet (filter (\<lambda>p. totalBet p > 0) (players s))"
  have 1: "\<forall>p\<in>set ?con. 0 \<le> totalBet p" by auto
  have 2: "sorted (map totalBet ?con)" by simp
  have 3: "\<forall>p\<in>set ?con. \<exists>q\<in>set ?act. totalBet q \<ge> totalBet p" using covered by auto
  have "sum_list (map amount (calculateSidePots s)) = (\<Sum>p\<leftarrow>?con. totalBet p - 0)"
    unfolding calculateSidePots_def Let_def by (rule sidePotLoop_sum [OF 1 2 3])
  also have "\<dots> = sum_list (map totalBet (filter (\<lambda>p. totalBet p > 0) (players s)))"
    by (simp add: sum_list_sort_key)
  also have "\<dots> = sum_list (map totalBet (players s))"
    using nonneg by (simp add: sum_list_filter_pos)
  finally show ?thesis .
qed

lemma slicePots_cong:
  assumes "\<forall>curr\<in>set ls. length (filter (\<lambda>p. curr \<le> totalBet p) ps)
                              = length (filter (\<lambda>p. curr \<le> totalBet p) ps')"
  shows "slicePots ps active prev ls = slicePots ps' active prev ls"
  using assms by (induction ls arbitrary: prev) auto

lemma remdups_adj_sorted_Cons:
  fixes L :: int
  assumes "sorted xs" and "\<forall>x\<in>set xs. L \<le> x"
  shows "remdups_adj (L # xs) = L # remdups_adj (filter (\<lambda>x. L < x) xs)"
  using assms
proof (induction xs)
  case Nil
  then show ?case by simp
next
  case (Cons x xs)
  show ?case
  proof (cases "x = L")
    case True
    with Cons show ?thesis by simp
  next
    case False
    with Cons.prems have lt: "L < x" by simp
    with Cons.prems have "\<forall>y\<in>set xs. L < y" by auto
    then have "filter (\<lambda>y. L < y) xs = xs" by (simp add: filter_id_conv)
    with lt False show ?thesis by simp
  qed
qed

lemma sidePotLoop_slicePots:
  assumes "sorted (map totalBet rest)" and "\<forall>p\<in>set rest. prev \<le> totalBet p"
  shows "sidePotLoop act prev rest =
         filter (\<lambda>pt. eligiblePlayers pt \<noteq> [])
           (slicePots rest act prev (remdups_adj (filter (\<lambda>b. prev < b) (map totalBet rest))))"
  using assms
proof (induction rest arbitrary: prev)
  case Nil
  then show ?case by simp
next
  case (Cons p rest)
  let ?L = "totalBet p"
  have sorted: "sorted (map totalBet rest)" and ge: "\<forall>q\<in>set rest. ?L \<le> totalBet q"
    and pl: "prev \<le> ?L"
    using Cons.prems by auto
  let ?ls = "remdups_adj (filter (\<lambda>b. ?L < b) (map totalBet rest))"
  have IH: "sidePotLoop act ?L rest =
      filter (\<lambda>pt. eligiblePlayers pt \<noteq> []) (slicePots rest act ?L ?ls)"
    using sorted ge by (rule Cons.IH)
  have above: "\<forall>curr\<in>set ?ls. ?L < curr" by auto
  have drop_p: "slicePots (p # rest) act c ?ls = slicePots rest act c ?ls" for c
    using above by (intro slicePots_cong) auto
  show ?case
  proof (cases "?L = prev")
    case True
    then show ?thesis using IH drop_p by (simp add: Let_def)
  next
    case False
    with pl have lt: "prev < ?L" by simp
    have "\<forall>b\<in>set (map totalBet rest). prev < b" using ge lt by auto
    then have "filter (\<lambda>b. prev < b) (map totalBet rest) = map totalBet rest"
      by (simp only: filter_id_conv)
    then have lv: "remdups_adj (filter (\<lambda>b. prev < b) (map totalBet (p # rest))) = ?L # ?ls"
      using lt remdups_adj_sorted_Cons [of "map totalBet rest" ?L] sorted ge by simp
    have all: "filter (\<lambda>q. ?L \<le> totalBet q) (p # rest) = p # rest"
      using ge by (simp add: filter_id_conv)
    have pos: "0 < (?L - prev) * int (length (p # rest))" using lt by simp
    show ?thesis
      unfolding lv using IH drop_p lt pos all
      by (simp add: Let_def)
  qed
qed

lemma map_insort_key: "map f (insort_key f x xs) = insort (f x) (map f xs)"
  by (induction xs) simp_all

lemma map_sort_key: "map f (sort_key f xs) = sort (map f xs)"
  by (induction xs) (simp_all add: map_insort_key)

lemma calculateSidePots_spec:
  "calculateSidePots s = filter (\<lambda>pt. eligiblePlayers pt \<noteq> []) (spec_sidePots s)"
proof -
  let ?act = "filter (\<lambda>p. \<not> folded p) (players s)"
  let ?pos = "filter (\<lambda>p. 0 < totalBet p) (players s)"
  let ?con = "sort_key totalBet ?pos"
  have bets: "map totalBet ?con = sort (filter (\<lambda>b. 0 < b) (map totalBet (players s)))"
    by (simp add: map_sort_key filter_map comp_def)
  have "filter (\<lambda>b. 0 < b) (map totalBet ?con) = map totalBet ?con"
    unfolding filter_id_conv by auto
  then have lv: "remdups_adj (filter (\<lambda>b. 0 < b) (map totalBet ?con)) = contributionLevels s"
    by (simp only: bets contributionLevels_def)
  have cnt: "length (filter (\<lambda>p. curr \<le> totalBet p) ?con)
           = length (filter (\<lambda>p. curr \<le> totalBet p) (players s))"
    if "curr \<in> set (contributionLevels s)" for curr
  proof -
    from that have "0 < curr" by (auto simp add: contributionLevels_def)
    then have "filter (\<lambda>p. curr \<le> totalBet p) ?pos = filter (\<lambda>p. curr \<le> totalBet p) (players s)"
      by (auto intro!: filter_cong)
    then show ?thesis by (simp add: filter_sort)
  qed
  have "calculateSidePots s = sidePotLoop ?act 0 ?con"
    by (simp add: calculateSidePots_def Let_def)
  also have "\<dots> = filter (\<lambda>pt. eligiblePlayers pt \<noteq> [])
      (slicePots ?con ?act 0 (remdups_adj (filter (\<lambda>b. 0 < b) (map totalBet ?con))))"
    by (rule sidePotLoop_slicePots) auto
  also have "\<dots> = filter (\<lambda>pt. eligiblePlayers pt \<noteq> [])
      (slicePots ?con ?act 0 (contributionLevels s))"
    by (simp only: lv)
  also have "slicePots ?con ?act 0 (contributionLevels s)
      = slicePots (players s) ?act 0 (contributionLevels s)"
    by (rule slicePots_cong) (simp add: cnt)
  finally show ?thesis by (simp add: spec_sidePots_def)
qed

lemma sidePotLoop_sum_le:
  assumes "\<forall>p\<in>set rest. prev \<le> totalBet p" "sorted (map totalBet rest)"
  shows "sum_list (map amount (sidePotLoop act prev rest)) \<le> (\<Sum>p\<leftarrow>rest. totalBet p - prev)"
  using assms
proof (induction rest arbitrary: prev)
  case Nil
  then show ?case by simp
next
  case (Cons p rest)
  let ?L = "totalBet p"
  have IH: "sum_list (map amount (sidePotLoop act ?L rest)) \<le> (\<Sum>q\<leftarrow>rest. totalBet q - ?L)"
    using Cons.prems by (intro Cons.IH) auto
  have ge: "prev \<le> ?L" using Cons.prems(1) by simp
  then have nn: "0 \<le> (?L - prev) * int (length (p # rest))" by simp
  have split: "(\<Sum>q\<leftarrow>rest. totalBet q - prev)
      = (\<Sum>q\<leftarrow>rest. totalBet q - ?L) + (?L - prev) * int (length rest)"
    by (simp add: sum_list_map_diff_const algebra_simps)
  show ?case using IH nn split by (simp add: Let_def algebra_simps)
qed

lemma calculateSidePots_sum_le:
  assumes nonneg: "\<forall>p\<in>set (players s). 0 \<le> totalBet p"
  shows "sum_list (map amount (calculateSidePots s)) \<le> sum_list (map totalBet (players s))"
proof -
  let ?act = "filter (\<lambda>p. \<not> folded p) (players s)"
  let ?con = "sort_key totalBet (filter (\<lambda>p. totalBet p > 0) (players s))"
  have 1: "\<forall>p\<in>set ?con. 0 \<le> totalBet p" by auto
  have 2: "sorted (map totalBet ?con)" by simp
  have "sum_list (map amount (calculateSidePots s)) \<le> (\<Sum>p\<leftarrow>?con. totalBet p - 0)"
    unfolding calculateSidePots_def Let_def by (rule sidePotLoop_sum_le [OF 1 2])
  also have "\<dots> = sum_list (map totalBet (filter (\<lambda>p. totalBet p > 0) (players s)))"
    by (simp add: sum_list_sort_key)
  also have "\<dots> = sum_list (map totalBet (players s))"
    using nonneg by (simp add: sum_list_filter_pos)
  finally show ?thesis .
qed

text \<open>
  C2, as the claim states it, fails: in \<open>foldedLeader\<close> the players have put in 45 chips
  and the side pots hold 40, because the slice above 15 has no eligible winner and the
  engine creates no pot for it.
\<close>

theorem calculateSidePots_sum_counterexample:
  "spec_sidePots foldedLeader =
     [\<lparr>amount = 30, eligiblePlayers = [''a'', ''c'']\<rparr>,
      \<lparr>amount = 10, eligiblePlayers = [''c'']\<rparr>,
      \<lparr>amount = 5, eligiblePlayers = []\<rparr>] \<and>
   calculateSidePots foldedLeader =
     [\<lparr>amount = 30, eligiblePlayers = [''a'', ''c'']\<rparr>,
      \<lparr>amount = 10, eligiblePlayers = [''c'']\<rparr>] \<and>
   sum_list (map amount (calculateSidePots foldedLeader)) = 40 \<and>
   sum_list (map totalBet (players foldedLeader)) = 45"
  by (simp add: foldedLeader_def calculateSidePots_def spec_sidePots_def contributionLevels_def
      example_defs Let_def)

text \<open>
  C2, amended. The side pots of the engine are the pots of the specification, each with the
  eligible winners of its own contribution level, except that a pot without eligible
  winner is not created. When no total bet is negative the side pots never hold more than
  the players have put in; when moreover every total bet is matched or exceeded by the
  total bet of some player who has not folded, they hold exactly that.
\<close>

theorem calculateSidePots_solvency:
  "calculateSidePots s = filter (\<lambda>pt. eligiblePlayers pt \<noteq> []) (spec_sidePots s) \<and>
   ((\<forall>p\<in>set (players s). 0 \<le> totalBet p) \<longrightarrow>
      sum_list (map amount (calculateSidePots s)) \<le> sum_list (map totalBet (players s))) \<and>
   ((\<forall>p\<in>set (players s). 0 \<le> totalBet p) \<and>
    (\<forall>p\<in>set (players s). \<exists>q\<in>set (players s). \<not> folded q \<and> totalBet p \<le> totalBet q)
    \<longrightarrow> sum_list (map amount (calculateSidePots s)) = sum_list (map totalBet (players s)))"
  using calculateSidePots_spec [of s] calculateSidePots_sum_le [of s] calculateSidePots_sum [of s]
  by blast

theorem calculateSidePots_solvency_witness:
  "list_all (\<lambda>p. 0 \<le> totalBet p) (players allInCalled) \<and>
   list_all (\<lambda>p. list_ex (\<lambda>q. \<not> folded q \<and> totalBet p \<le> totalBet q) (players allInCalled))
     (players allInCalled) \<and>
   spec_sidePots allInCalled =
     [\<lparr>amount = 60, eligiblePlayers = [''p1'', ''p2'', ''p3'']\<rparr>,
      \<lparr>amount = 60, eligiblePlayers = [''p2'', ''p3'']\<rparr>] \<and>
   calculateSidePots allInCalled =
     [\<lparr>amount = 60, eligiblePlayers = [''p1'', ''p2'', ''p3'']\<rparr>,
      \<lparr>amount = 60, eligiblePlayers = [''p2'', ''p3'']\<rparr>] \<and>
   sum_list (map amount (calculateSidePots allInCalled)) = 120 \<and>
   sum_list (map totalBet (players allInCalled)) = 120"
  using calculateSidePots_solvency [of allInCalled]
  by (simp add: allInCalled_def calculateSidePots_def spec_sidePots_def contributionLevels_def
      example_defs Let_def)


subsection \<open>Posting the blinds\<close>

lemma findIndex_Some: "findIndex P xs = Some i \<Longrightarrow> i < length xs \<and> P (xs ! i)"
  by (induction xs arbitrary: i) (auto split: if_splits option.splits)

lemma postBlind_players_length: "length (players (postBlind b i s)) = length (players s)"
  by (simp add: postBlind_def Let_def)

lemma postBlind_other:
  "k \<noteq> i \<Longrightarrow> players (postBlind b i s) ! k = players s ! k"
  by (simp add: postBlind_def Let_def)

lemma postBlind_pot: "pot (postBlind b i s) = pot s + min b (stack (players s ! i))"
  by (simp add: postBlind_def Let_def)

lemma postBlind_self:
  assumes "i < length (players s)"
  shows "stack (players (postBlind b i s) ! i) = stack (players s ! i) - min b (stack (players s ! i))"
    "streetBet (players (postBlind b i s) ! i) = min b (stack (players s ! i))"
    "totalBet (players (postBlind b i s) ! i)
       = totalBet (players s ! i) + min b (stack (players s ! i))"
    "allIn (players (postBlind b i s) ! i)
       = (allIn (players s ! i) \<or> stack (players s ! i) - min b (stack (players s ! i)) = 0)"
  using assms by (auto simp add: postBlind_def Let_def min_def)

lemma postBlind_stack_nonneg:
  assumes "0 \<le> stack (players s ! k)"
  shows "0 \<le> stack (players (postBlind b i s) ! k)"
proof -
  consider "length (players s) \<le> i" | "i < length (players s)" "k = i"
    | "i < length (players s)" "k \<noteq> i" by linarith
  then show ?thesis
  proof cases
    case 1
    then show ?thesis using assms by (simp add: postBlind_def Let_def list_update_beyond)
  next
    case 2
    then show ?thesis using postBlind_self(1) [of i s b] by simp
  next
    case 3
    then show ?thesis using assms by (simp add: postBlind_other)
  qed
qed

lemma postBlinds_players:
  "players (postBlinds config s) =
     players (case getPlayerByIndex s (getBigBlindPosition s) of
                None \<Rightarrow> (case getPlayerByIndex s (getSmallBlindPosition s) of
                            None \<Rightarrow> s | Some i \<Rightarrow> postBlind (smallBlind config) i s)
              | Some j \<Rightarrow> postBlind (bigBlind config) j
                   (case getPlayerByIndex s (getSmallBlindPosition s) of
                            None \<Rightarrow> s | Some i \<Rightarrow> postBlind (smallBlind config) i s))"
  by (simp add: postBlinds_def Let_def split: option.splits)

lemma postBlinds_pot:
  "pot (postBlinds config s) =
     pot (case getPlayerByIndex s (getBigBlindPosition s) of
                None \<Rightarrow> (case getPlayerByIndex s (getSmallBlindPosition s) of
                            None \<Rightarrow> s | Some i \<Rightarrow> postBlind (smallBlind config) i s)
              | Some j \<Rightarrow> postBlind (bigBlind config) j
                   (case getPlayerByIndex s (getSmallBlindPosition s) of
                            None \<Rightarrow> s | Some i \<Rightarrow> postBlind (smallBlind config) i s))"
  by (simp add: postBlinds_def Let_def split: option.splits)

lemma postBlinds_stack_nonneg:
  "0 \<le> stack (players s ! k) \<Longrightarrow> 0 \<le> stack (players (postBlinds config s) ! k)"
  by (simp add: postBlinds_players postBlind_stack_nonneg split: option.splits)

lemma postBlind_self_eq:
  assumes "i < length (players s)"
  shows "players (postBlind b i s) ! i =
    (players s ! i)
      \<lparr>stack := stack (players s ! i) - min b (stack (players s ! i)),
       streetBet := min b (stack (players s ! i)),
       totalBet := totalBet (players s ! i) + min b (stack (players s ! i)),
       allIn := (allIn (players s ! i) \<or> stack (players s ! i) - min b (stack (players s ! i)) = 0)\<rparr>"
  using assms by (auto simp add: postBlind_def Let_def min_def)

lemma postBlinds_two_players:
  fixes config :: GameConfig
  assumes sb: "getPlayerByIndex s (getSmallBlindPosition s) = Some i"
    and bb: "getPlayerByIndex s (getBigBlindPosition s) = Some j"
    and ne: "i \<noteq> j"
  shows "players (postBlinds config s) ! i =
      (players s ! i)
        \<lparr>stack := stack (players s ! i) - min (smallBlind config) (stack (players s ! i)),
         streetBet := min (smallBlind config) (stack (players s ! i)),
         totalBet := totalBet (players s ! i) + min (smallBlind config) (stack (players s ! i)),
         allIn := (allIn (players s ! i)
                   \<or> stack (players s ! i) - min (smallBlind config) (stack (players s ! i)) = 0)\<rparr>"
    "players (postBlinds config s) ! j =
      (players s ! j)
        \<lparr>stack := stack (players s ! j) - min (bigBlind config) (stack (players s ! j)),
         streetBet := min (bigBlind config) (stack (players s ! j)),
         totalBet := totalBet (players s ! j) + min (bigBlind config) (stack (players s ! j)),
         allIn := (allIn (players s ! j)
                   \<or> stack (players s ! j) - min (bigBlind config) (stack (players s ! j)) = 0)\<rparr>"
    "pot (postBlinds config s) =
      pot s + min (smallBlind config) (stack (players s ! i))
            + min (bigBlind config) (stack (players s ! j))"
proof -
  have i: "i < length (players s)" and j: "j < length (players s)"
    using sb bb findIndex_Some unfolding getPlayerByIndex_def by blast+
  let ?s1 = "postBlind (smallBlind config) i s"
  have p: "players (postBlinds config s) = players (postBlind (bigBlind config) j ?s1)"
    by (simp add: postBlinds_players sb bb)
  have j1: "j < length (players ?s1)" using j by (simp add: postBlind_players_length)
  have pj: "players ?s1 ! j = players s ! j" using ne by (simp add: postBlind_other)
  have pi: "players (postBlinds config s) ! i = players ?s1 ! i"
    using ne by (simp add: p postBlind_other)
  show "players (postBlinds config s) ! i =
      (players s ! i)
        \<lparr>stack := stack (players s ! i) - min (smallBlind config) (stack (players s ! i)),
         streetBet := min (smallBlind config) (stack (players s ! i)),
         totalBet := totalBet (players s ! i) + min (smallBlind config) (stack (players s ! i)),
         allIn := (allIn (players s ! i)
                   \<or> stack (players s ! i) - min (smallBlind config) (stack (players s ! i)) = 0)\<rparr>"
    unfolding pi by (rule postBlind_self_eq [OF i])
  show "players (postBlinds config s) ! j =
      (players s ! j)
        \<lparr>stack := stack (players s ! j) - min (bigBlind config) (stack (players s ! j)),
         streetBet := min (bigBlind config) (stack (players s ! j)),
         totalBet := totalBet (players s ! j) + min (bigBlind config) (stack (players s ! j)),
         allIn := (allIn (players s ! j)
                   \<or> stack (players s ! j) - min (bigBlind config) (stack (players s ! j)) = 0)\<rparr>"
    unfolding p using postBlind_self_eq [OF j1, of "bigBlind config"] pj by simp
  show "pot (postBlinds config s) =
      pot s + min (smallBlind config) (stack (players s ! i))
            + min (bigBlind config) (stack (players s ! j))"
    by (simp add: postBlinds_pot sb bb postBlind_pot pj)
qed

text \<open>
  When the small blind and the big blind are found at two different players, each of them
  pays the smaller of the blind and the stack: that amount leaves the stack, becomes the
  street bet, is added to the total bet and to the pot, the player is marked all-in when
  the stack is empty afterwards, and no stack that was not negative becomes negative.
\<close>

lemma postBlinds_distinct_blinds:
  "(0 \<le> stack (players s ! k) \<longrightarrow> 0 \<le> stack (players (postBlinds config s) ! k)) \<and>
   (getPlayerByIndex s (getSmallBlindPosition s) = Some i \<and>
    getPlayerByIndex s (getBigBlindPosition s) = Some j \<and> i \<noteq> j \<longrightarrow>
      players (postBlinds config s) ! i =
        (players s ! i)
          \<lparr>stack := stack (players s ! i) - min (smallBlind config) (stack (players s ! i)),
           streetBet := min (smallBlind config) (stack (players s ! i)),
           totalBet := totalBet (players s ! i) + min (smallBlind config) (stack (players s ! i)),
           allIn := (allIn (players s ! i)
                     \<or> stack (players s ! i) - min (smallBlind config) (stack (players s ! i)) = 0)\<rparr> \<and>
      players (postBlinds config s) ! j =
        (players s ! j)
          \<lparr>stack := stack (players s ! j) - min (bigBlind config) (stack (players s ! j)),
           streetBet := min (bigBlind config) (stack (players s ! j)),
           totalBet := totalBet (players s ! j) + min (bigBlind config) (stack (players s ! j)),
           allIn := (allIn (players s ! j)
                     \<or> stack (players s ! j) - min (bigBlind config) (stack (players s ! j)) = 0)\<rparr> \<and>
      pot (postBlinds config s) =
        pot s + min (smallBlind config) (stack (players s ! i))
              + min (bigBlind config) (stack (players s ! j)) \<and>
      0 \<le> stack (players (postBlinds config s) ! i) \<and>
      0 \<le> stack (players (postBlinds config s) ! j))"
proof (intro conjI impI)
  assume "0 \<le> stack (players s ! k)"
  then show "0 \<le> stack (players (postBlinds config s) ! k)" by (rule postBlinds_stack_nonneg)
next
  assume h: "getPlayerByIndex s (getSmallBlindPosition s) = Some i \<and>
    getPlayerByIndex s (getBigBlindPosition s) = Some j \<and> i \<noteq> j"
  then have sb: "getPlayerByIndex s (getSmallBlindPosition s) = Some i"
    and bb: "getPlayerByIndex s (getBigBlindPosition s) = Some j" and ne: "i \<noteq> j" by auto
  note two = postBlinds_two_players [OF sb bb ne, of config]
  show "players (postBlinds config s) ! i =
        (players s ! i)
          \<lparr>stack := stack (players s ! i) - min (smallBlind config) (stack (players s ! i)),
           streetBet := min (smallBlind config) (stack (players s ! i)),
           totalBet := totalBet (players s ! i) + min (smallBlind config) (stack (players s ! i)),
           allIn := (allIn (players s ! i)
                     \<or> stack (players s ! i) - min (smallBlind config) (stack (players s ! i)) = 0)\<rparr>"
    using two(1) by simp
  show "players (postBlinds config s) ! j =
        (players s ! j)
          \<lparr>stack := stack (players s ! j) - min (bigBlind config) (stack (players s ! j)),
           streetBet := min (bigBlind config) (stack (players s ! j)),
           totalBet := totalBet (players s ! j) + min (bigBlind config) (stack (players s ! j)),
           allIn := (allIn (players s ! j)
                     \<or> stack (players s ! j) - min (bigBlind config) (stack (players s ! j)) = 0)\<rparr>"
    using two(2) by simp
  show "pot (postBlinds config s) =
        pot s + min (smallBlind config) (stack (players s ! i))
              + min (bigBlind config) (stack (players s ! j))"
    using two(3) by simp
  show "0 \<le> stack (players (postBlinds config s) ! i)"
    using two(1) by simp
  show "0 \<le> stack (players (postBlinds config s) ! j)"
    using two(2) by simp
qed

lemma postBlinds_distinct_blinds_shortStacks:
  "0 \<le> stack (players shortStacks ! 0) \<and>
   getPlayerByIndex shortStacks (getSmallBlindPosition shortStacks) = Some 0 \<and>
   getPlayerByIndex shortStacks (getBigBlindPosition shortStacks) = Some 1 \<and>
   (0::nat) \<noteq> 1 \<and>
   players (postBlinds DEFAULT_GAME_CONFIG shortStacks) =
     [\<lparr>playerId = ''p1'', seatIndex = 0, stack = 0, streetBet = 1, totalBet = 1,
       folded = False, allIn = True\<rparr>,
      \<lparr>playerId = ''p2'', seatIndex = 1, stack = 1, streetBet = 2, totalBet = 2,
       folded = False, allIn = False\<rparr>] \<and>
   pot (postBlinds DEFAULT_GAME_CONFIG shortStacks) = 3"
  using postBlinds_distinct_blinds [of shortStacks 0 DEFAULT_GAME_CONFIG 0 1]
  by (simp add: shortStacks_def postBlinds_def postBlind_def position_defs example_defs Let_def)


text \<open>
  C10 fails in \<open>sparseSeats\<close>, a game of two players at seats 0 and 2. The walk of
  \<open>getNextActivePlayer\<close> visits the seats \<open>(seat + 1) % 2\<close>, that is 1 and 0, and never seat
  2, so the big blind is looked up at the seat of the button, where the small blind is: the
  player of seat 0 pays both blinds, 3 chips, and is left with a street bet of 2, the
  second assignment; the player of seat 2 pays nothing.
\<close>

theorem postBlinds_charges_one_player_both_blinds:
  "getSmallBlindPosition sparseSeats = 0 \<and>
   getBigBlindPosition sparseSeats = 0 \<and>
   players sparseSeats =
     [\<lparr>playerId = ''p1'', seatIndex = 0, stack = 100, streetBet = 0, totalBet = 0,
       folded = False, allIn = False\<rparr>,
      \<lparr>playerId = ''p3'', seatIndex = 2, stack = 100, streetBet = 0, totalBet = 0,
       folded = False, allIn = False\<rparr>] \<and>
   players (postBlinds DEFAULT_GAME_CONFIG sparseSeats) =
     [\<lparr>playerId = ''p1'', seatIndex = 0, stack = 97, streetBet = 2, totalBet = 3,
       folded = False, allIn = False\<rparr>,
      \<lparr>playerId = ''p3'', seatIndex = 2, stack = 100, streetBet = 0, totalBet = 0,
       folded = False, allIn = False\<rparr>] \<and>
   pot (postBlinds DEFAULT_GAME_CONFIG sparseSeats) = 3"
  by (simp add: sparseSeats_def postBlinds_def postBlind_def position_defs example_defs Let_def)


subsection \<open>Legal actions and \<open>applyAction\<close>\<close>

lemma applyAction_rejects_unlisted:
  assumes "ty \<notin> set (getValidActions config s)"
  shows "\<exists>e. GameEngine_applyAction config s pid ty a = Some (Failure e, s)"
  using assms by (simp add: GameEngine_applyAction_def split: option.splits)

lemma handleBet_needs_big_blind:
  assumes "stack (players s ! i) < bigBlind config"
  shows "\<exists>e. handleBet config s i a = Some (Failure e, s)"
  using assms by (simp add: handleBet_def Let_def)

text \<open>
  The blinds of \<open>shortStacks\<close> leave \<open>p1\<close> all-in and \<open>p2\<close>, who is to act, with one chip
  behind a big blind of 2.
\<close>

lemma shortStacks_after_blinds:
  "postBlinds DEFAULT_GAME_CONFIG shortStacks =
     \<lparr>players =
        [\<lparr>playerId = ''p1'', seatIndex = 0, stack = 0, streetBet = 1, totalBet = 1,
          folded = False, allIn = True\<rparr>,
         \<lparr>playerId = ''p2'', seatIndex = 1, stack = 1, streetBet = 2, totalBet = 2,
          folded = False, allIn = False\<rparr>],
      pot = 3, sidePots = [], street = 0, buttonPos = 0, actionPos = 1,
      lastAggressor = None, lastRaiseAmount = 2, minRaise = 2, status = BETTING\<rparr>"
  by (simp add: shortStacks_def postBlinds_def postBlind_def position_defs example_defs Let_def)

text \<open>
  C6 at the state after the blinds of \<open>shortStacks\<close>: \<open>getValidActions\<close> offers a bet to
  \<open>p2\<close>, and \<open>applyAction\<close> rejects a bet of \<open>p2\<close> whatever the amount, leaving the state as
  it was.
\<close>

theorem getValidActions_offers_unplayable_bet:
  "getValidActions DEFAULT_GAME_CONFIG (postBlinds DEFAULT_GAME_CONFIG shortStacks)
     = [FOLD, CHECK, BET, RAISE, ALL_IN] \<and>
   (\<forall>a. \<exists>e. GameEngine_applyAction DEFAULT_GAME_CONFIG
              (postBlinds DEFAULT_GAME_CONFIG shortStacks) ''p2'' BET a
            = Some (Failure e, postBlinds DEFAULT_GAME_CONFIG shortStacks))"
proof
  show valid: "getValidActions DEFAULT_GAME_CONFIG (postBlinds DEFAULT_GAME_CONFIG shortStacks)
     = [FOLD, CHECK, BET, RAISE, ALL_IN]"
    unfolding shortStacks_after_blinds
    by (simp add: getValidActions_def getAmountToCall_def maxStreetBet_def Math_max_def
        getPlayerByIndex_def example_defs Let_def)
  show "\<forall>a. \<exists>e. GameEngine_applyAction DEFAULT_GAME_CONFIG
              (postBlinds DEFAULT_GAME_CONFIG shortStacks) ''p2'' BET a
            = Some (Failure e, postBlinds DEFAULT_GAME_CONFIG shortStacks)"
  proof
    fix a :: int
    have "stack (players (postBlinds DEFAULT_GAME_CONFIG shortStacks) ! 1)
            < bigBlind DEFAULT_GAME_CONFIG"
      unfolding shortStacks_after_blinds by (simp add: DEFAULT_GAME_CONFIG_def)
    then have "\<exists>e. handleBet DEFAULT_GAME_CONFIG (postBlinds DEFAULT_GAME_CONFIG shortStacks) 1 a
            = Some (Failure e, postBlinds DEFAULT_GAME_CONFIG shortStacks)"
      by (rule handleBet_needs_big_blind)
    moreover have "getPlayerById (postBlinds DEFAULT_GAME_CONFIG shortStacks) ''p2'' = Some 1"
      by (simp add: shortStacks_after_blinds getPlayerById_def)
    moreover have "seatIndex (players (postBlinds DEFAULT_GAME_CONFIG shortStacks) ! 1)
        = actionPos (postBlinds DEFAULT_GAME_CONFIG shortStacks)"
      by (simp add: shortStacks_after_blinds)
    ultimately show "\<exists>e. GameEngine_applyAction DEFAULT_GAME_CONFIG
              (postBlinds DEFAULT_GAME_CONFIG shortStacks) ''p2'' BET a
            = Some (Failure e, postBlinds DEFAULT_GAME_CONFIG shortStacks)"
      by (simp add: GameEngine_applyAction_def valid)
  qed
qed

subsection \<open>Chip conservation of \<open>applyAction\<close>\<close>























section \<open>Showdown\<close>

text \<open>
  \<open>GameRoom.resolveShowdown\<close>. Of a hand reveal the settlement reads the hand rank only;
  \<open>handReveals\<close> is the map from player ids to the revealed ranks.
\<close>

type_synonym reveals = "string \<rightharpoonup> int"

definition playerHands :: "GameStateN \<Rightarrow> reveals \<Rightarrow> reveals" where
  "playerHands s handReveals =
     (\<lambda>i. if i \<in> set (map playerId (filter (\<lambda>p. \<not> folded p) (players s)))
          then handReveals i else None)"

text \<open>
  The eligible players of a pot who revealed, with their ranks, sorted by the comparator
  \<open>(a, b) => b.handRank - a.handRank\<close>; the sort is stable.
\<close>

definition eligibleHands :: "SidePot \<Rightarrow> reveals \<Rightarrow> (string \<times> int) list" where
  "eligibleHands sidePot hands =
     sort_key (\<lambda>h. - snd h)
       (List.map_filter (\<lambda>i. case hands i of None \<Rightarrow> None | Some r \<Rightarrow> Some (i, r))
          (eligiblePlayers sidePot))"

definition potWinners :: "SidePot \<Rightarrow> reveals \<Rightarrow> (string \<times> int) list" where
  "potWinners sidePot hands =
     (case eligibleHands sidePot hands of
        [] \<Rightarrow> []
      | best # _ \<Rightarrow> filter (\<lambda>h. snd h = snd best) (eligibleHands sidePot hands))"

text \<open>
  \<open>winnings\<close> is a JavaScript \<open>Map\<close>: setting a key that is present keeps its place,
  a new key goes to the end.
\<close>

fun addWinnings :: "(string \<times> int) list \<Rightarrow> string \<Rightarrow> int \<Rightarrow> (string \<times> int) list" where
  "addWinnings [] i a = [(i, a)]"
| "addWinnings ((j, c) # w) i a =
     (if j = i then (j, c + a) # w else (j, c) # addWinnings w i a)"

text \<open>
  One pot split among its winners: each gets \<open>Math.floor(amount / n)\<close>, the first of them
  the remainder as well. The amount of a side pot is positive.
\<close>

fun splitPot :: "int \<Rightarrow> int \<Rightarrow> bool \<Rightarrow> (string \<times> int) list \<Rightarrow> (string \<times> int) list
    \<Rightarrow> (string \<times> int) list" where
  "splitPot potPerWinner remainder isFirst [] winnings = winnings"
| "splitPot potPerWinner remainder isFirst (h # hs) winnings =
     splitPot potPerWinner remainder False hs
       (addWinnings winnings (fst h) (potPerWinner + (if isFirst then remainder else 0)))"

fun distributePots :: "SidePot list \<Rightarrow> reveals \<Rightarrow> (string \<times> int) list \<Rightarrow> (string \<times> int) list"
where
  "distributePots [] hands winnings = winnings"
| "distributePots (sidePot # rest) hands winnings =
     (let ws = potWinners sidePot hands in
      if ws = [] then distributePots rest hands winnings
      else distributePots rest hands
             (splitPot (amount sidePot div int (length ws)) (amount sidePot mod int (length ws))
                True ws winnings))"

fun applyWinnings :: "(string \<times> int) list \<Rightarrow> GameStateN \<Rightarrow> GameStateN" where
  "applyWinnings [] s = s"
| "applyWinnings ((i, a) # w) s =
     applyWinnings w
       (case getPlayerById s i of
          None \<Rightarrow> s
        | Some k \<Rightarrow> updPlayer k (\<lambda>p. p\<lparr>stack := stack p + a\<rparr>) s)"

text \<open>
  The state after \<open>resolveShowdown\<close> (the stacks with the winnings; \<open>endGame\<close> then marks
  the game finished) together with the pot distribution that is broadcast.
\<close>

definition resolveShowdown :: "GameStateN \<Rightarrow> reveals \<Rightarrow> GameStateN \<times> (string \<times> int) list"
where
  "resolveShowdown s handReveals =
     (if length (filter (\<lambda>p. \<not> folded p) (players s)) = 1 then
        (case findIndex (\<lambda>p. \<not> folded p) (players s) of
           None \<Rightarrow> (s\<lparr>status := FINISHED\<rparr>, [])
         | Some k \<Rightarrow>
             ((updPlayer k (\<lambda>p. p\<lparr>stack := stack p + pot s\<rparr>) s)\<lparr>status := FINISHED\<rparr>,
              [(playerId (players s ! k), pot s)]))
      else
        (let winnings = distributePots (calculateSidePots s) (playerHands s handReveals) [];
             s' = applyWinnings winnings s
         in (s'\<lparr>status := FINISHED\<rparr>,
             filter (\<lambda>(i, a). getPlayerById s i \<noteq> None) winnings)))"

text \<open>
  A heads-up showdown for a pot of 100: \<open>p1\<close> reveals rank 0 (the royal flush, the best
  hand), \<open>p2\<close> reveals rank 10.
\<close>

definition royalShowdown :: GameStateN where
  "royalShowdown =
     (createInitialGameState
        [(createPlayerState ''p1'' 0 50)\<lparr>totalBet := 50\<rparr>,
         (createPlayerState ''p2'' 1 50)\<lparr>totalBet := 50\<rparr>]
        DEFAULT_GAME_CONFIG 0)
     \<lparr>pot := 100, street := Street_SHOWDOWN, status := SHOWDOWN\<rparr>"

definition royalReveals :: reveals where
  "royalReveals = [''p1'' \<mapsto> 0, ''p2'' \<mapsto> 10]"


lemma potWinners_have_largest_rank:
  assumes "w \<in> set (potWinners sidePot hands)" "h \<in> set (eligibleHands sidePot hands)"
  shows "snd h \<le> snd w"
proof -
  obtain best rest where e: "eligibleHands sidePot hands = best # rest"
    using assms(2) by (cases "eligibleHands sidePot hands") auto
  have "sorted (map (\<lambda>h. - snd h) (eligibleHands sidePot hands))"
    unfolding eligibleHands_def by (rule sorted_sort_key)
  with e assms(2) have "- snd best \<le> - snd h" by auto
  moreover from assms(1) e have "snd w = snd best" by (auto simp add: potWinners_def)
  ultimately show ?thesis by simp
qed

text \<open>
  C3 at \<open>royalShowdown\<close>: of the two players who revealed, the pot of 100 goes to \<open>p2\<close>,
  whose rank 10 is the numerically larger one, and \<open>p1\<close> with rank 0 gets nothing.
\<close>

theorem resolveShowdown_awards_largest_rank:
  "map (\<lambda>sidePot. map fst (potWinners sidePot (playerHands royalShowdown royalReveals)))
     (calculateSidePots royalShowdown) = [[''p2'']] \<and>
   map stack (players royalShowdown) = [50, 50] \<and>
   map stack (players (fst (resolveShowdown royalShowdown royalReveals))) = [50, 150] \<and>
   snd (resolveShowdown royalShowdown royalReveals) = [(''p2'', 100)]"
  by (simp add: royalShowdown_def royalReveals_def calculateSidePots_def example_defs Let_def
      potWinners_def eligibleHands_def playerHands_def List.map_filter_def resolveShowdown_def
      getPlayerById_def updPlayer_def)

section \<open>Enumeration codepoints\<close>

text \<open>
  C9, as the claim states it, fails for the server's \<open>ActionType\<close>: its members are numbered
  from \<open>FOLD = 0\<close>, so that for instance a fold is 0 and not 3.
\<close>

theorem ActionType_codepoints_counterexample:
  "\<not> (ActionType_value BET = 1 \<and> ActionType_value CALL = 2 \<and> ActionType_value FOLD = 3 \<and>
      ActionType_value RAISE = 4 \<and> ActionType_value CHECK = 5 \<and> ActionType_value ALL_IN = 6)"
  by simp

text \<open>
  C9, amended. The constants of the SDK (which the circuits use) have the codepoints
  Null 0, Bet 1, Call 2, Fold 3, Raise 4, Check 5, AllIn 6; Preflop 0, Flop 1, Turn 2,
  River 3, Showdown 4; Waiting 0, Active 1, Finished 2. The server's \<open>Street\<close> has the same
  street codepoints; its \<open>ActionType\<close> has no Null and is numbered Fold 0, Check 1, Call 2,
  Bet 3, Raise 4, AllIn 5; its \<open>GameStatus\<close> has six string values.
\<close>

theorem enum_codepoints:
  "[ACTION_NULL, ACTION_BET, ACTION_CALL, ACTION_FOLD, ACTION_RAISE, ACTION_CHECK,
    ACTION_ALL_IN] = [0, 1, 2, 3, 4, 5, 6] \<and>
   [STREET_PREFLOP, STREET_FLOP, STREET_TURN, STREET_RIVER, STREET_SHOWDOWN] = [0, 1, 2, 3, 4] \<and>
   [STATUS_WAITING, STATUS_ACTIVE, STATUS_FINISHED] = [0, 1, 2] \<and>
   [Street_PREFLOP, Street_FLOP, Street_TURN, Street_RIVER, Street_SHOWDOWN] = [0, 1, 2, 3, 4] \<and>
   map ActionType_value [FOLD, CHECK, CALL, BET, RAISE, ALL_IN] = [0, 1, 2, 3, 4, 5] \<and>
   map GameStatus_value [WAITING, SHUFFLE, DEALING, BETTING, SHOWDOWN, FINISHED]
     = [''waiting'', ''shuffle'', ''dealing'', ''betting'', ''showdown'', ''finished'']"
  by (simp add: sdk_consts Street_PREFLOP_def Street_FLOP_def Street_TURN_def Street_RIVER_def
      Street_SHOWDOWN_def)

section \<open>Card and deck commitments\<close>

text \<open>BN254's scalar field prime (\<open>FIELD_PRIME\<close>, \<open>FIELD_ORDER\<close>, \<open>FIELD_MODULUS\<close>).\<close>

definition FIELD_PRIME :: int where
  "FIELD_PRIME =
     21888242871839275222246405745257275088548364400416034343698204186575808495617"

subsection \<open>The Circom SDK: points are pairs of coordinates\<close>

text \<open>
  In the Circom SDK and in the browser client a point is the array \<open>[x, y]\<close> and the
  identity is \<open>INFINITY = [0n, 1n]\<close> (client/src/cards.js; elgamal.js and poseidon.js
  import the same constant from babyjub.js). The hash (Poseidon, from circomlibjs) is a
  parameter \<open>H\<close> of the model.
\<close>

type_synonym JubPoint = "int \<times> int"

definition INFINITY :: JubPoint where
  "INFINITY = (0, 1)"

definition isInfinity :: "JubPoint \<Rightarrow> bool" where
  "isInfinity point = (fst point = 0 \<and> snd point = 1)"

record JubCard =
  epk :: JubPoint
  msg :: JubPoint
  pk :: JubPoint

text \<open>\<open>createCard\<close> of elgamal.js: an unmasked card.\<close>

definition createCard :: "JubPoint \<Rightarrow> JubCard" where
  "createCard cardPoint = \<lparr>epk = INFINITY, msg = cardPoint, pk = INFINITY\<rparr>"

text \<open>\<open>commitCard\<close> and \<open>commitDeck\<close> of circom/sdk/poseidon.js.\<close>

definition commitCard :: "(int list \<Rightarrow> int) \<Rightarrow> JubCard \<Rightarrow> int" where
  "commitCard H c =
     H [fst (epk c), snd (epk c), fst (msg c), snd (msg c),
        fst (pk c), snd (pk c)]"

definition commitDeck :: "(int list \<Rightarrow> int) \<Rightarrow> JubCard list \<Rightarrow> int" where
  "commitDeck H cards = fold (\<lambda>c product. product * (commitCard H c + 1)) cards 1"

text \<open>
  The same two functions in the browser client (client/src/cards.js), which turn the
  identity into \<open>(0, 0)\<close> and multiply in the field.
\<close>

definition fieldMul :: "int \<Rightarrow> int \<Rightarrow> int" where
  "fieldMul a b = js_rem (a * b) FIELD_PRIME"

definition client_commitCard :: "(int list \<Rightarrow> int) \<Rightarrow> JubCard \<Rightarrow> int" where
  "client_commitCard H c =
     H [if isInfinity (epk c) then 0 else fst (epk c),
        if isInfinity (epk c) then 0 else snd (epk c),
        if isInfinity (msg c) then 0 else fst (msg c),
        if isInfinity (msg c) then 0 else snd (msg c),
        if isInfinity (pk c) then 0 else fst (pk c),
        if isInfinity (pk c) then 0 else snd (pk c)]"

definition client_commitDeck :: "(int list \<Rightarrow> int) \<Rightarrow> JubCard list \<Rightarrow> int" where
  "client_commitDeck H deck =
     fold (\<lambda>c product.
             fieldMul product
               (H [if isInfinity (epk c) then 0 else fst (epk c),
                   if isInfinity (epk c) then 0 else snd (epk c),
                   fst (msg c), snd (msg c),
                   if isInfinity (pk c) then 0 else fst (pk c),
                   if isInfinity (pk c) then 0 else snd (pk c)] + 1))
          deck 1"

subsection \<open>The TypeScript SDK: points carry a flag\<close>

text \<open>
  \<open>MaskedCard\<close> of types.ts: \<open>epk\<close> and \<open>pk\<close> are \<open>{x, y, isInfinite}\<close>, \<open>msg\<close> is
  \<open>{x, y}\<close>. A point is the triple of its fields.
\<close>

type_synonym FlaggedPoint = "int \<times> int \<times> bool"

definition px :: "FlaggedPoint \<Rightarrow> int" where "px p = fst p"
definition py :: "FlaggedPoint \<Rightarrow> int" where "py p = fst (snd p)"
definition isInfinite :: "FlaggedPoint \<Rightarrow> bool" where "isInfinite p = snd (snd p)"

record MaskedCard =
  m_epk :: FlaggedPoint
  m_msg :: "int \<times> int"
  m_pk :: FlaggedPoint

text \<open>\<open>cardCommitment\<close> of game-state.ts; the hash is Pedersen's, again a parameter.\<close>

definition cardCommitment :: "(int list \<Rightarrow> int) \<Rightarrow> MaskedCard \<Rightarrow> int" where
  "cardCommitment H c =
     H [if isInfinite (m_epk c) then 0 else px (m_epk c),
        if isInfinite (m_epk c) then 0 else py (m_epk c),
        fst (m_msg c), snd (m_msg c),
        if isInfinite (m_pk c) then 0 else px (m_pk c),
        if isInfinite (m_pk c) then 0 else py (m_pk c)]"

text \<open>\<open>mod\<close> of game-state.ts, with the field order as modulus.\<close>

definition mod_field :: "int \<Rightarrow> int" where
  "mod_field a = js_rem (js_rem a FIELD_PRIME + FIELD_PRIME) FIELD_PRIME"

text \<open>
  The two deck commitments that \<open>generateShuffleProverToml\<close> computes: before the shuffle
  over the messages alone, afterwards over all six coordinates as they are stored.
\<close>

definition commitmentBefore :: "(int list \<Rightarrow> int) \<Rightarrow> MaskedCard list \<Rightarrow> int" where
  "commitmentBefore H cardsBefore =
     fold (\<lambda>c acc. mod_field (acc * (H [0, 0, fst (m_msg c), snd (m_msg c), 0, 0] + 1)))
       cardsBefore 1"

definition commitmentAfter :: "(int list \<Rightarrow> int) \<Rightarrow> MaskedCard list \<Rightarrow> int" where
  "commitmentAfter H maskedCards =
     fold (\<lambda>c acc. mod_field (acc * (H [px (m_epk c), py (m_epk c),
                                        fst (m_msg c), snd (m_msg c),
                                        px (m_pk c), py (m_pk c)] + 1)))
       maskedCards 1"


subsection \<open>What the commitments compute\<close>

lemma js_rem_nonneg: "0 \<le> a \<Longrightarrow> js_rem a b = a mod \<bar>b\<bar>"
  by (cases "a = 0") (simp_all add: js_rem_def)

lemma js_rem_floor_mod:
  assumes "0 < m"
  shows "js_rem (js_rem a m + m) m = a mod m"
proof (cases "0 \<le> a")
  case True
  then have "js_rem a m = a mod m" using assms by (simp add: js_rem_nonneg)
  moreover have "0 \<le> a mod m + m" using assms by (simp add: add_nonneg_nonneg)
  ultimately show ?thesis using assms by (simp add: js_rem_nonneg)
next
  case False
  then have a: "a < 0" by simp
  then have r: "js_rem a m = - ((- a) mod m)" using assms by (simp add: js_rem_def)
  have b: "0 \<le> (- a) mod m" "(- a) mod m < m" using assms by simp_all
  then have "0 \<le> - ((- a) mod m) + m" by simp
  then have "js_rem (js_rem a m + m) m = (- ((- a) mod m) + m) mod m"
    using assms by (simp add: r js_rem_nonneg)
  also have "\<dots> = (- ((- a) mod m)) mod m" by simp
  also have "\<dots> = (- (- a)) mod m" by (simp add: mod_minus_eq)
  finally show ?thesis by simp
qed

lemma FIELD_PRIME_pos: "0 < FIELD_PRIME" by (simp add: FIELD_PRIME_def)

lemma mod_field_eq: "mod_field a = a mod FIELD_PRIME"
  unfolding mod_field_def by (rule js_rem_floor_mod [OF FIELD_PRIME_pos])

lemma fold_mult_prod:
  "fold (\<lambda>c product. product * (f c + 1)) cards (a::int) = a * prod_list (map (\<lambda>c. f c + 1) cards)"
  by (induction cards arbitrary: a) (simp_all add: algebra_simps)

lemma commitDeck_prod: "commitDeck H cards = prod_list (map (\<lambda>c. commitCard H c + 1) cards)"
  by (simp add: commitDeck_def fold_mult_prod)

lemma prod_list_mset:
  assumes "mset xs = mset ys"
  shows "prod_list (map f xs) = (prod_list (map f ys) :: int)"
proof -
  have "prod_mset (mset (map f xs)) = prod_mset (mset (map f ys))"
    using assms by simp
  then show ?thesis by (simp only: prod_mset_prod_list)
qed

lemma commitDeck_permutation:
  "mset cards = mset cards' \<Longrightarrow> commitDeck H cards = commitDeck H cards'"
  unfolding commitDeck_prod by (rule prod_list_mset)

lemma fold_mod_prod:
  "fold (\<lambda>c acc. (acc * (f c + 1)) mod m) cards (a mod m) = (a * prod_list (map (\<lambda>c. f c + 1) cards)) mod (m::int)"
proof (induction cards arbitrary: a)
  case Nil
  then show ?case by simp
next
  case (Cons c cards)
  have "fold (\<lambda>c acc. (acc * (f c + 1)) mod m) (c # cards) (a mod m)
      = fold (\<lambda>c acc. (acc * (f c + 1)) mod m) cards ((a * (f c + 1)) mod m)"
    by (simp add: mod_mult_left_eq)
  also have "\<dots> = (a * (f c + 1) * prod_list (map (\<lambda>c. f c + 1) cards)) mod m"
    by (rule Cons.IH)
  finally show ?case by (simp add: algebra_simps)
qed

lemma commitmentAfter_prod:
  "commitmentAfter H maskedCards =
     prod_list (map (\<lambda>c. H [px (m_epk c), py (m_epk c), fst (m_msg c), snd (m_msg c),
                              px (m_pk c), py (m_pk c)] + 1) maskedCards) mod FIELD_PRIME"
proof -
  have one: "(1::int) mod FIELD_PRIME = 1" by (simp add: FIELD_PRIME_def)
  show ?thesis
    unfolding commitmentAfter_def mod_field_eq
    using fold_mod_prod [of "\<lambda>c. H [px (m_epk c), py (m_epk c), fst (m_msg c), snd (m_msg c),
                              px (m_pk c), py (m_pk c)]" FIELD_PRIME maskedCards 1]
    by (simp only: one mult_1)
qed

lemma commitDeck_differs:
  assumes "FIELD_PRIME \<le> prod_list (map (\<lambda>c. commitCard H c + 1) cards)"
  shows "commitDeck H cards \<noteq> prod_list (map (\<lambda>c. commitCard H c + 1) cards) mod FIELD_PRIME"
proof -
  have "prod_list (map (\<lambda>c. commitCard H c + 1) cards) mod FIELD_PRIME < FIELD_PRIME"
    using FIELD_PRIME_pos by simp
  with assms show ?thesis by (simp add: commitDeck_prod)
qed


lemma fieldMul_nonneg: "0 \<le> a \<Longrightarrow> 0 \<le> b \<Longrightarrow> fieldMul a b = (a * b) mod FIELD_PRIME"
  using FIELD_PRIME_pos by (simp add: fieldMul_def js_rem_nonneg)

lemma commitmentAfter_permutation:
  assumes "mset maskedCards = mset maskedCards'"
  shows "commitmentAfter H maskedCards = commitmentAfter H maskedCards'"
  unfolding commitmentAfter_prod using prod_list_mset [OF assms] by simp

lemma client_commitCard_unmasked:
  assumes "\<not> isInfinity cardPoint"
  shows "client_commitCard H (createCard cardPoint) = H [0, 0, fst cardPoint, snd cardPoint, 0, 0]"
  using assms by (auto simp add: client_commitCard_def createCard_def INFINITY_def isInfinity_def)

lemma cardCommitment_unmasked:
  assumes "isInfinite (m_epk c)" "isInfinite (m_pk c)"
  shows "cardCommitment H c = H [0, 0, fst (m_msg c), snd (m_msg c), 0, 0]"
  using assms by (simp add: cardCommitment_def)

text \<open>
  C5. \<open>commitDeck\<close> of the Circom SDK returns the product of the \<open>commitCard + 1\<close> as an
  integer, not reduced modulo the field prime; the deck commitment that
  \<open>generateShuffleProverToml\<close> computes is that product modulo the field prime. (Both are
  the same for every order of the cards: \<open>commitDeck_permutation\<close>,
  \<open>commitmentAfter_permutation\<close>.)
\<close>

theorem commitDeck_is_unreduced_product:
  "commitDeck H cards = prod_list (map (\<lambda>c. commitCard H c + 1) cards) \<and>
   commitmentAfter H' maskedCards =
     prod_list (map (\<lambda>c. H' [px (m_epk c), py (m_epk c), fst (m_msg c), snd (m_msg c),
                               px (m_pk c), py (m_pk c)] + 1) maskedCards) mod FIELD_PRIME"
  using commitDeck_prod commitmentAfter_prod by blast

text \<open>
  C7. \<open>commitCard\<close> of the Circom SDK hashes the coordinates as they are stored, so that a
  card that was never masked, whose \<open>epk\<close> and \<open>pk\<close> are the identity \<open>(0, 1)\<close>,
  contributes \<open>0, 1\<close> and \<open>0, 1\<close> to the hash input. (The client's \<open>commitCard\<close> and the
  TypeScript SDK's \<open>cardCommitment\<close> hash \<open>0, 0\<close> there: \<open>client_commitCard_unmasked\<close>,
  \<open>cardCommitment_unmasked\<close>.)
\<close>

theorem commitCard_hashes_identity_as_stored:
  "commitCard H (createCard cardPoint) = H [0, 1, fst cardPoint, snd cardPoint, 0, 1]"
  by (simp add: commitCard_def createCard_def INFINITY_def)

section \<open>Hand rankings and their Merkle tree\<close>

subsection \<open>Generation of the tables (hand-rankings.ts)\<close>

datatype HandCategory =
  RoyalFlush | StraightFlush | FourOfAKind | FullHouse | Flush
  | Straight | ThreeOfAKind | TwoPair | OnePair | HighCard

text \<open>
  \<open>HandRanking\<close>, without the description, which is for display. The function
  \<open>primeProduct\<close> of the source is called \<open>rankPrimeProduct\<close> here, as the field has the name.
\<close>

record HandRanking =
  primeProduct :: int
  rank :: nat
  category :: HandCategory
  isFlush :: bool

definition RANK_PRIMES :: "int list" where
  "RANK_PRIMES = [2, 3, 5, 7, 11, 13, 17, 19, 23, 29, 31, 37, 41]"

definition RANKS :: "nat list" where
  "RANKS = [0, 1, 2, 3, 4, 5, 6, 7, 8, 9, 10, 11, 12]"

text \<open>
  The generator \<open>combinations(array, k)\<close>: for each \<open>i\<close> from 0 to \<open>length - k\<close>, every
  combination of \<open>k - 1\<close> elements of \<open>array.slice(i + 1)\<close>, with \<open>array[i]\<close> in front.
\<close>

fun combinations :: "'a list \<Rightarrow> nat \<Rightarrow> 'a list list" where
  "combinations array 0 = [[]]"
| "combinations array (Suc k) =
     (if length array < Suc k then []
      else concat (map (\<lambda>i. map (\<lambda>combo. array ! i # combo)
                               (combinations (drop (Suc i) array) k))
                     [0..<Suc (length array - Suc k)]))"

definition rankPrimeProduct :: "nat list \<Rightarrow> int" where
  "rankPrimeProduct ranks = fold (\<lambda>r acc. acc * RANK_PRIMES ! r) ranks 1"

text \<open>\<open>isStraight\<close> is applied to five sorted ranks.\<close>

definition isStraight :: "nat list \<Rightarrow> bool" where
  "isStraight sortedRanks =
     ((sortedRanks ! 0 = 0 \<and> sortedRanks ! 1 = 1 \<and> sortedRanks ! 2 = 2 \<and>
       sortedRanks ! 3 = 3 \<and> sortedRanks ! 4 = 12)
      \<or> list_all (\<lambda>i. sortedRanks ! i = sortedRanks ! (i - 1) + 1) [1..<5])"

text \<open>
  \<open>Array.prototype.sort\<close> with a comparator: a stable sort that puts \<open>a\<close> before \<open>b\<close> when
  the comparator is negative. All comparators of the source are total preorders, for which
  the result is the stable insertion sort.
\<close>

fun insertBy :: "('a \<Rightarrow> 'a \<Rightarrow> int) \<Rightarrow> 'a \<Rightarrow> 'a list \<Rightarrow> 'a list" where
  "insertBy cmp a [] = [a]"
| "insertBy cmp a (b # bs) = (if cmp a b \<le> 0 then a # b # bs else b # insertBy cmp a bs)"

definition sortBy :: "('a \<Rightarrow> 'a \<Rightarrow> int) \<Rightarrow> 'a list \<Rightarrow> 'a list" where
  "sortBy cmp xs = foldr (insertBy cmp) xs []"

text \<open>
  The comparators: the first difference decides, looking from index 4 down to 0
  (\<open>cmpFromTop\<close>, for ascending rank lists) or from index 0 up to \<open>n - 1\<close> (\<open>cmpFromFront\<close>,
  for descending rank lists); the greater rank comes first.
\<close>

fun cmpAt :: "nat list \<Rightarrow> nat list \<Rightarrow> nat list \<Rightarrow> int" where
  "cmpAt [] a b = 0"
| "cmpAt (i # is) a b = (if b ! i \<noteq> a ! i then int (b ! i) - int (a ! i) else cmpAt is a b)"

definition cmpFromTop :: "nat list \<Rightarrow> nat list \<Rightarrow> int" where
  "cmpFromTop a b = cmpAt [4, 3, 2, 1, 0] a b"

definition cmpFromFront :: "nat \<Rightarrow> nat list \<Rightarrow> nat list \<Rightarrow> int" where
  "cmpFromFront n a b = cmpAt [0..<n] a b"

text \<open>\<open>[...xs].sort((a, b) => b - a)\<close> on numbers.\<close>

definition sortDescending :: "nat list \<Rightarrow> nat list" where
  "sortDescending xs = rev (sort xs)"

text \<open>The ranks from 12 down to 0, as the \<open>for\<close> loops count.\<close>

definition downFrom12 :: "nat list" where
  "downFrom12 = rev [0..<13]"

text \<open>
  The running counter \<open>currentRank++\<close> gives each entry the number of entries pushed to its
  table before it: \<open>numbered\<close> turns the pushed products and categories into entries.
\<close>

definition numbered :: "bool \<Rightarrow> (int \<times> HandCategory) list \<Rightarrow> HandRanking list" where
  "numbered fl xs =
     map (\<lambda>(i, (p, c)). \<lparr>primeProduct = p, rank = i, category = c, isFlush = fl\<rparr>)
       (enumerate 0 xs)"

definition straightFlushHands :: "(int \<times> HandCategory) list" where
  "straightFlushHands =
     [(rankPrimeProduct [12, 11, 10, 9, 8], RoyalFlush)]
     @ map (\<lambda>high. (rankPrimeProduct [high, high - 1, high - 2, high - 3, high - 4],
                     StraightFlush))
         [11, 10, 9, 8, 7, 6, 5, 4]
     @ [(rankPrimeProduct [3, 2, 1, 0, 12], StraightFlush)]"

definition allFlushCombos :: "nat list list" where
  "allFlushCombos =
     sortBy cmpFromTop (filter (\<lambda>sorted. \<not> isStraight sorted) (map sort (combinations RANKS 5)))"

definition plainFlushHands :: "(int \<times> HandCategory) list" where
  "plainFlushHands = map (\<lambda>ranks. (rankPrimeProduct ranks, Flush)) allFlushCombos"

definition fourOfAKindHands :: "(int \<times> HandCategory) list" where
  "fourOfAKindHands =
     concat (map (\<lambda>quadRank.
        map (\<lambda>kicker. (RANK_PRIMES ! quadRank ^ 4 * RANK_PRIMES ! kicker, FourOfAKind))
          (filter (\<lambda>kicker. kicker \<noteq> quadRank) downFrom12)) downFrom12)"

definition fullHouseHands :: "(int \<times> HandCategory) list" where
  "fullHouseHands =
     concat (map (\<lambda>tripsRank.
        map (\<lambda>pairRank. (RANK_PRIMES ! tripsRank ^ 3 * RANK_PRIMES ! pairRank ^ 2, FullHouse))
          (filter (\<lambda>pairRank. pairRank \<noteq> tripsRank) downFrom12)) downFrom12)"

definition straightHands :: "(int \<times> HandCategory) list" where
  "straightHands =
     map (\<lambda>high. (rankPrimeProduct (if high = 3 then [3, 2, 1, 0, 12]
                                     else [high, high - 1, high - 2, high - 3, high - 4]),
                   Straight))
       [12, 11, 10, 9, 8, 7, 6, 5, 4, 3]"

definition threeOfAKindHands :: "(int \<times> HandCategory) list" where
  "threeOfAKindHands =
     concat (map (\<lambda>tripsRank.
        map (\<lambda>kickers. (RANK_PRIMES ! tripsRank ^ 3 * RANK_PRIMES ! (kickers ! 0)
                          * RANK_PRIMES ! (kickers ! 1), ThreeOfAKind))
          (sortBy (cmpFromFront 2)
             (map sortDescending (combinations (filter (\<lambda>r. r \<noteq> tripsRank) RANKS) 2))))
        downFrom12)"

definition twoPairHands :: "(int \<times> HandCategory) list" where
  "twoPairHands =
     concat (map (\<lambda>highPair.
        concat (map (\<lambda>lowPair.
           map (\<lambda>kicker. (RANK_PRIMES ! highPair ^ 2 * RANK_PRIMES ! lowPair ^ 2
                            * RANK_PRIMES ! kicker, TwoPair))
             (sortDescending (filter (\<lambda>r. r \<noteq> highPair \<and> r \<noteq> lowPair) RANKS)))
          (rev [0..<highPair])))
        (rev [1..<13]))"

definition onePairHands :: "(int \<times> HandCategory) list" where
  "onePairHands =
     concat (map (\<lambda>pairRank.
        map (\<lambda>kickers. (RANK_PRIMES ! pairRank ^ 2 * RANK_PRIMES ! (kickers ! 0)
                          * RANK_PRIMES ! (kickers ! 1) * RANK_PRIMES ! (kickers ! 2), OnePair))
          (sortBy (cmpFromFront 3)
             (map sortDescending (combinations (filter (\<lambda>r. r \<noteq> pairRank) RANKS) 3))))
        downFrom12)"

definition highCardCombos :: "nat list list" where
  "highCardCombos =
     sortBy (cmpFromFront 5)
       (map sortDescending
          (filter (\<lambda>sorted. \<not> isStraight sorted) (map sort (combinations RANKS 5))))"

definition highCardHands :: "(int \<times> HandCategory) list" where
  "highCardHands = map (\<lambda>ranks. (rankPrimeProduct ranks, HighCard)) highCardCombos"

definition flushHands :: "HandRanking list" where
  "flushHands = numbered True (straightFlushHands @ plainFlushHands)"

definition basicHands :: "HandRanking list" where
  "basicHands =
     numbered False
       (fourOfAKindHands @ fullHouseHands @ straightHands @ threeOfAKindHands
        @ twoPairHands @ onePairHands @ highCardHands)"

definition generateHandRankings :: "HandRanking list \<times> HandRanking list" where
  "generateHandRankings = (basicHands, flushHands)"


subsection \<open>The Merkle tree\<close>

text \<open>
  \<open>hashTwo\<close> and \<open>hashLeaf\<close> of hand-rankings.ts (Pedersen) and \<open>hash2\<close> of poseidon.js
  (Poseidon) are the hash \<open>H\<close> of the model applied to two or three field elements.
\<close>

definition hashTwo :: "(int list \<Rightarrow> int) \<Rightarrow> int \<Rightarrow> int \<Rightarrow> int" where
  "hashTwo H a b = H [a, b]"

definition hashLeaf :: "(int list \<Rightarrow> int) \<Rightarrow> HandRanking \<Rightarrow> int" where
  "hashLeaf H h = H [primeProduct h, int (rank h), if isFlush h then 1 else 0]"

definition MERKLE_DEPTH :: nat where
  "MERKLE_DEPTH = 13"

text \<open>
  One pass of the inner loop of \<open>buildMerkleTree\<close>: the nodes are hashed two by two. A
  level of odd length would hash its last node with \<open>undefined\<close>; that is \<open>None\<close>.
\<close>

fun hashPairs :: "(int list \<Rightarrow> int) \<Rightarrow> int list \<Rightarrow> int list option" where
  "hashPairs H [] = Some []"
| "hashPairs H [a] = None"
| "hashPairs H (a # b # rest) =
     (case hashPairs H rest of None \<Rightarrow> None | Some r \<Rightarrow> Some (hashTwo H a b # r))"

lemma hashPairs_length: "hashPairs H xs = Some ys \<Longrightarrow> 2 * length ys = length xs"
  by (induction H xs arbitrary: ys rule: hashPairs.induct) (auto split: option.splits)

text \<open>The outer loop: \<open>tree\<close> collects the levels from the leaves to the root.\<close>

function buildLevels :: "(int list \<Rightarrow> int) \<Rightarrow> int list \<Rightarrow> int list list option" where
  "buildLevels H currentLevel =
     (if length currentLevel > 1 then
        (case hashPairs H currentLevel of
           None \<Rightarrow> None
         | Some nextLevel \<Rightarrow>
             (case buildLevels H nextLevel of
                None \<Rightarrow> None
              | Some t \<Rightarrow> Some (currentLevel # t)))
      else Some [currentLevel])"
  by pat_completeness auto
termination
proof (relation "measure (\<lambda>(H, l). length l)")
  show "wf (measure (\<lambda>(H, l). length l))" by simp
next
  fix H :: "int list \<Rightarrow> int" and currentLevel nextLevel :: "int list"
  assume "1 < length currentLevel" "hashPairs H currentLevel = Some nextLevel"
  then show "((H, nextLevel), (H, currentLevel)) \<in> measure (\<lambda>(H, l). length l)"
    using hashPairs_length [of H currentLevel nextLevel] by simp
qed

declare buildLevels.simps [simp del]

datatype MerkleError = TooManyHands nat | HashOfUndefined | RootUndefined

record MerkleTree =
  root :: int
  leaves :: "int list"
  tree :: "int list list"

definition buildMerkleTree :: "(int list \<Rightarrow> int) \<Rightarrow> HandRanking list \<Rightarrow> MerkleError + MerkleTree"
where
  "buildMerkleTree H hands =
     (let hashed = map (hashLeaf H) hands;
          size = 2 ^ MERKLE_DEPTH
      in if length hashed > size then Inl (TooManyHands (length hashed))
         else
           (let padded = hashed @ replicate (size - length hashed) 0 in
            case buildLevels H padded of
              None \<Rightarrow> Inl HashOfUndefined
            | Some t \<Rightarrow>
                (case last t of
                   [] \<Rightarrow> Inl RootUndefined
                 | r # _ \<Rightarrow> Inr \<lparr>root = r, leaves = padded, tree = t\<rparr>)))"

text \<open>Reading an array: \<open>None\<close> is JavaScript's \<open>undefined\<close> beyond the end.\<close>

definition nth_opt :: "'a list \<Rightarrow> nat \<Rightarrow> 'a option" where
  "nth_opt xs i = (if i < length xs then Some (xs ! i) else None)"

text \<open>\<open>getMerkleProof\<close> of hand-rankings.ts: the siblings and the path bits.\<close>

fun getMerkleProof :: "int list list \<Rightarrow> nat \<Rightarrow> int option list \<times> bool list" where
  "getMerkleProof (level # next # rest) idx =
     (let isRight = (idx mod 2 = 1);
          siblingIdx = (if isRight then idx - 1 else idx + 1);
          (proof, pathBits) = getMerkleProof (next # rest) (idx div 2)
      in (nth_opt level siblingIdx # proof, isRight # pathBits))"
| "getMerkleProof [level] idx = ([], [])"
| "getMerkleProof [] idx = ([], [])"

text \<open>
  \<open>verifyMerkleProof\<close> of poseidon.js: the leaf is hashed with one path element after the
  other, on the left where the path index is 0 and on the right otherwise (also where the
  path index is missing), and the result is compared with the root.
\<close>

fun rehash :: "(int list \<Rightarrow> int) \<Rightarrow> int \<Rightarrow> int list \<Rightarrow> int list \<Rightarrow> int" where
  "rehash H current [] pathIndices = current"
| "rehash H current (e # es) [] = rehash H (hashTwo H e current) es []"
| "rehash H current (e # es) (i # is) =
     rehash H (if i = 0 then hashTwo H current e else hashTwo H e current) es is"

definition verifyMerkleProof ::
  "(int list \<Rightarrow> int) \<Rightarrow> int \<Rightarrow> int list \<Rightarrow> int list \<Rightarrow> int \<Rightarrow> bool" where
  "verifyMerkleProof H leaf pathElements pathIndices r =
     (rehash H leaf pathElements pathIndices = r)"

text \<open>A path bit as the path index a verifier reads: 1 for a right child, 0 for a left one.\<close>

definition pathIndex :: "bool \<Rightarrow> int" where
  "pathIndex isRight = (if isRight then 1 else 0)"


subsection \<open>The number of entries\<close>

lemma length_insertBy: "length (insertBy cmp a xs) = Suc (length xs)"
  by (induction xs) auto

lemma length_sortBy: "length (sortBy cmp xs) = length xs"
  by (induction xs) (auto simp: sortBy_def length_insertBy)

lemma length_numbered: "length (numbered fl xs) = length xs"
  by (simp add: numbered_def)

lemma numbered_rank: "i < length xs \<Longrightarrow> rank (numbered fl xs ! i) = i"
  by (simp add: numbered_def nth_enumerate_eq split: prod.splits)

text \<open>Of the 1287 sets of five ranks, ten are straights.\<close>

lemma nonStraight_count:
  "length (filter (\<lambda>sorted. \<not> isStraight sorted) (map sort (combinations RANKS 5))) = 1277"
  by code_simp

lemma length_straightFlushHands: "length straightFlushHands = 10"
  by (simp add: straightFlushHands_def)

lemma length_plainFlushHands: "length plainFlushHands = 1277"
  unfolding plainFlushHands_def allFlushCombos_def
  by (simp only: length_map length_sortBy nonStraight_count)

lemma length_fourOfAKindHands: "length fourOfAKindHands = 156"
  by code_simp

lemma length_fullHouseHands: "length fullHouseHands = 156"
  by code_simp

lemma length_straightHands: "length straightHands = 10"
  by (simp add: straightHands_def)

lemma kicker_pairs:
  "map (\<lambda>t. length (combinations (filter (\<lambda>r. r \<noteq> t) RANKS) 2)) downFrom12 = replicate 13 66"
  by code_simp

lemma kicker_triples:
  "map (\<lambda>t. length (combinations (filter (\<lambda>r. r \<noteq> t) RANKS) 3)) downFrom12 = replicate 13 220"
  by code_simp

lemma length_threeOfAKindHands: "length threeOfAKindHands = 858"
proof -
  have "length threeOfAKindHands
      = sum_list (map (\<lambda>t. length (combinations (filter (\<lambda>r. r \<noteq> t) RANKS) 2)) downFrom12)"
    by (simp add: threeOfAKindHands_def length_concat length_sortBy comp_def)
  then show ?thesis by (simp add: kicker_pairs sum_list_replicate)
qed

lemma length_twoPairHands: "length twoPairHands = 858"
  by code_simp

lemma length_onePairHands: "length onePairHands = 2860"
proof -
  have "length onePairHands
      = sum_list (map (\<lambda>t. length (combinations (filter (\<lambda>r. r \<noteq> t) RANKS) 3)) downFrom12)"
    by (simp add: onePairHands_def length_concat length_sortBy comp_def)
  then show ?thesis by (simp add: kicker_triples sum_list_replicate)
qed

lemma length_highCardHands: "length highCardHands = 1277"
  unfolding highCardHands_def highCardCombos_def
  by (simp only: length_map length_sortBy nonStraight_count)

lemma length_flushHands: "length flushHands = 1287"
  by (simp add: flushHands_def length_numbered length_straightFlushHands length_plainFlushHands)

lemma length_basicHands: "length basicHands = 6175"
  by (simp add: basicHands_def length_numbered length_fourOfAKindHands length_fullHouseHands
      length_straightHands length_threeOfAKindHands length_twoPairHands length_onePairHands
      length_highCardHands)

lemma basicHands_rank: "i < length basicHands \<Longrightarrow> rank (basicHands ! i) = i"
  unfolding basicHands_def length_numbered by (rule numbered_rank)

lemma flushHands_rank: "i < length flushHands \<Longrightarrow> rank (flushHands ! i) = i"
  unfolding flushHands_def length_numbered by (rule numbered_rank)

subsection \<open>From a leaf to the root\<close>

lemma hashPairs_pow:
  assumes "length xs = 2 * n"
  shows "\<exists>ys. hashPairs H xs = Some ys \<and> length ys = n \<and>
           (\<forall>j<n. ys ! j = hashTwo H (xs ! (2 * j)) (xs ! (2 * j + 1)))"
  using assms
proof (induction H xs arbitrary: n rule: hashPairs.induct)
  case (1 H)
  then show ?case by simp
next
  case (2 H a)
  then show ?case by simp
next
  case (3 H a b rest)
  from 3(2) obtain m where n: "n = Suc m" and l: "length rest = 2 * m"
    by (cases n) auto
  from 3(1) [OF l] obtain r where r: "hashPairs H rest = Some r" "length r = m"
    "\<forall>j<m. r ! j = hashTwo H (rest ! (2 * j)) (rest ! (2 * j + 1))" by blast
  have "\<forall>j<n. (hashTwo H a b # r) ! j = hashTwo H ((a # b # rest) ! (2 * j)) ((a # b # rest) ! (2 * j + 1))"
  proof (intro allI impI)
    fix j assume "j < n"
    show "(hashTwo H a b # r) ! j = hashTwo H ((a # b # rest) ! (2 * j)) ((a # b # rest) ! (2 * j + 1))"
    proof (cases j)
      case 0
      then show ?thesis by simp
    next
      case (Suc k)
      with \<open>j < n\<close> n have "k < m" by simp
      with r(3) Suc show ?thesis by simp
    qed
  qed
  with r n show ?case by simp
qed

lemma buildLevels_hd:
  "buildLevels H xs = Some t \<Longrightarrow> \<exists>rest. t = xs # rest"
  by (subst (asm) buildLevels.simps) (auto split: if_splits option.splits)

lemma merkle_roundtrip_levels:
  assumes "length level = 2 ^ d" "idx < 2 ^ d"
  shows "\<exists>t path r. buildLevels H level = Some t \<and> last t = [r] \<and> length t = Suc d \<and>
           fst (getMerkleProof t idx) = map Some path \<and>
           rehash H (level ! idx) path (map pathIndex (snd (getMerkleProof t idx))) = r"
  using assms
proof (induction d arbitrary: level idx)
  case 0
  then obtain r where l: "level = [r]" by (cases level) auto
  with 0 show ?case by (subst buildLevels.simps) simp
next
  case (Suc d)
  from Suc.prems(1) have len: "length level = 2 * 2 ^ d" by simp
  from hashPairs_pow [OF len, of H] obtain nxt where nxt: "hashPairs H level = Some nxt"
    "length nxt = 2 ^ d" "\<forall>j<2 ^ d. nxt ! j = hashTwo H (level ! (2 * j)) (level ! (2 * j + 1))"
    by blast
  have idx2: "idx div 2 < 2 ^ d" using Suc.prems(2) by simp
  from Suc.IH [OF nxt(2) idx2] obtain t path r where t: "buildLevels H nxt = Some t"
    "last t = [r]" "length t = Suc d" "fst (getMerkleProof t (idx div 2)) = map Some path"
    "rehash H (nxt ! (idx div 2)) path (map pathIndex (snd (getMerkleProof t (idx div 2)))) = r"
    by blast
  from buildLevels_hd [OF t(1)] obtain rest where rest: "t = nxt # rest" by blast
  have pos: "(0::nat) < 2 ^ d" by simp
  have gt: "1 < length level" using len pos by linarith
  have bl: "buildLevels H level = Some (level # t)"
    using gt by (subst buildLevels.simps) (simp add: nxt(1) t(1))
  define k where "k = idx div 2"
  define bit where "bit = (idx mod 2 = 1)"
  define sib where "sib = (if bit then idx - 1 else idx + 1)"
  have k: "k < 2 ^ d" using idx2 by (simp add: k_def)
  have nk: "nxt ! k = hashTwo H (level ! (2 * k)) (level ! (2 * k + 1))"
    using nxt(3) k by blast
  have cases: "(bit \<and> idx = 2 * k + 1 \<and> sib = 2 * k) \<or> (\<not> bit \<and> idx = 2 * k \<and> sib = 2 * k + 1)"
    unfolding k_def bit_def sib_def by presburger
  have sib: "sib < length level" using cases k len by linarith
  have gp: "getMerkleProof (level # t) idx =
      (Some (level ! sib) # fst (getMerkleProof t k), bit # snd (getMerkleProof t k))"
    using sib unfolding k_def rest sib_def bit_def
    by (simp add: nth_opt_def Let_def split: prod.splits)
  have step: "(if pathIndex bit = 0 then hashTwo H (level ! idx) (level ! sib)
               else hashTwo H (level ! sib) (level ! idx)) = nxt ! k"
    using cases nk by (auto simp add: pathIndex_def)
  note t4 = t(4) [folded k_def] and t5 = t(5) [folded k_def]
  have "rehash H (level ! idx) (level ! sib # path)
          (map pathIndex (snd (getMerkleProof (level # t) idx)))
        = rehash H (nxt ! k) path (map pathIndex (snd (getMerkleProof t k)))"
    unfolding gp by (simp only: snd_conv list.map rehash.simps step)
  then have "rehash H (level ! idx) (level ! sib # path)
          (map pathIndex (snd (getMerkleProof (level # t) idx))) = r"
    using t5 by simp
  moreover have "fst (getMerkleProof (level # t) idx) = map Some (level ! sib # path)"
    by (simp add: gp t4)
  moreover have "last (level # t) = [r]" using t(2) rest by simp
  moreover have "length (level # t) = Suc (Suc d)" using t(3) by simp
  ultimately show ?case using bl by blast
qed


text \<open>
  A table of at most \<open>2 ^ 13\<close> hands: the tree is built, and for every entry the proof read
  from the tree is defined and leads from the entry's leaf to the root.
\<close>

definition roundTrips :: "(int list \<Rightarrow> int) \<Rightarrow> HandRanking list \<Rightarrow> bool" where
  "roundTrips H hands =
     (\<forall>i<length hands.
        \<exists>t path. buildMerkleTree H hands = Inr t \<and>
          leaves t ! i = hashLeaf H (hands ! i) \<and>
          fst (getMerkleProof (tree t) i) = map Some path \<and>
          verifyMerkleProof H (hashLeaf H (hands ! i)) path
            (map pathIndex (snd (getMerkleProof (tree t) i))) (root t))"

lemma merkle_roundtrip:
  assumes "length hands \<le> 2 ^ MERKLE_DEPTH"
  shows "roundTrips H hands"
  unfolding roundTrips_def
proof (intro allI impI)
  fix i assume i: "i < length hands"
  define padded where
    "padded = map (hashLeaf H) hands @ replicate (2 ^ MERKLE_DEPTH - length hands) 0"
  have len: "length padded = 2 ^ MERKLE_DEPTH" using assms by (simp add: padded_def)
  have i2: "i < 2 ^ MERKLE_DEPTH" using i assms by simp
  have pi: "padded ! i = hashLeaf H (hands ! i)" using i by (simp add: padded_def nth_append)
  from merkle_roundtrip_levels [OF len i2, of H] obtain t path r where
    t: "buildLevels H padded = Some t" "last t = [r]"
       "fst (getMerkleProof t i) = map Some path"
       "rehash H (padded ! i) path (map pathIndex (snd (getMerkleProof t i))) = r"
    by blast
  have "buildMerkleTree H hands = Inr \<lparr>root = r, leaves = padded, tree = t\<rparr>"
    using assms t(1,2) by (simp add: buildMerkleTree_def Let_def padded_def [symmetric])
  then show "\<exists>t path. buildMerkleTree H hands = Inr t \<and>
          leaves t ! i = hashLeaf H (hands ! i) \<and>
          fst (getMerkleProof (tree t) i) = map Some path \<and>
          verifyMerkleProof H (hashLeaf H (hands ! i)) path
            (map pathIndex (snd (getMerkleProof (tree t) i))) (root t)"
    using t(3,4) pi by (auto simp add: verifyMerkleProof_def)
qed

text \<open>
  C8. \<open>generateHandRankings\<close> produces 6175 basic and 1287 flush entries, 7462 together;
  the rank of an entry is its position in its table; and for both tables and every hash,
  the tree is built and each entry's Merkle proof verifies against the root of the tree.
\<close>

theorem generateHandRankings_merkle_roundtrip:
  "length (fst generateHandRankings) = 6175 \<and>
   length (snd generateHandRankings) = 1287 \<and>
   length (fst generateHandRankings) + length (snd generateHandRankings) = 7462 \<and>
   (\<forall>i<6175. rank (fst generateHandRankings ! i) = i) \<and>
   (\<forall>i<1287. rank (snd generateHandRankings ! i) = i) \<and>
   roundTrips H (fst generateHandRankings) \<and>
   roundTrips H (snd generateHandRankings)"
proof -
  have b: "length basicHands \<le> 2 ^ MERKLE_DEPTH" and f: "length flushHands \<le> 2 ^ MERKLE_DEPTH"
    by (simp_all add: length_basicHands length_flushHands MERKLE_DEPTH_def)
  show ?thesis
    using merkle_roundtrip [OF b, of H] merkle_roundtrip [OF f, of H]
      basicHands_rank flushHands_rank
    by (simp add: generateHandRankings_def length_basicHands length_flushHands)
qed


theorem generateHandRankings_merkle_roundtrip_witness:
  "(0::nat) < 1287 \<and>
   rank (snd generateHandRankings ! 0) = 0 \<and>
   (\<exists>t path. buildMerkleTree sum_list (snd generateHandRankings) = Inr t \<and>
      leaves t ! 0 = hashLeaf sum_list (snd generateHandRankings ! 0) \<and>
      fst (getMerkleProof (tree t) 0) = map Some path \<and>
      verifyMerkleProof sum_list (hashLeaf sum_list (snd generateHandRankings ! 0)) path
        (map pathIndex (snd (getMerkleProof (tree t) 0))) (root t))"
proof -
  note rt = generateHandRankings_merkle_roundtrip [of sum_list]
  from rt have len: "length (snd generateHandRankings) = 1287" by blast
  from rt have "roundTrips sum_list (snd generateHandRankings)" by blast
  then have "\<exists>t path. buildMerkleTree sum_list (snd generateHandRankings) = Inr t \<and>
      leaves t ! 0 = hashLeaf sum_list (snd generateHandRankings ! 0) \<and>
      fst (getMerkleProof (tree t) 0) = map Some path \<and>
      verifyMerkleProof sum_list (hashLeaf sum_list (snd generateHandRankings ! 0)) path
        (map pathIndex (snd (getMerkleProof (tree t) 0))) (root t)"
    unfolding roundTrips_def using len by simp
  moreover from rt have "rank (snd generateHandRankings ! 0) = 0" by simp
  ultimately show ?thesis by simp
qed

end
